theory Spec2Isabelle
  imports Complex_Main "HOL-Library.Char_ord" "HOL-Library.List_Lexorder"
begin

chapter \<open>The document-processing job pipeline\<close>

text \<open>
  A shallow embedding of the pipeline's five components: the retry executor and the circuit
  breaker (\<^verbatim>\<open>retry_handler.py\<close>), the job queue (\<^verbatim>\<open>job_queue.py\<close>), the document
  status store (\<^verbatim>\<open>document_db_service.py\<close>) and the stage orchestrator
  (\<^verbatim>\<open>routers/document.py\<close>). The definitions come first, component by component; the
  theorems about them follow.

  Conventions. A Python \<^verbatim>\<open>float\<close> (a delay, a clock reading, a score) is a \<^typ>\<open>real\<close>; the
  theorems state delays by the recurrence the code computes and compare clock readings only,
  so none of them depends on rounding. A Python \<^verbatim>\<open>int\<close> is an \<^typ>\<open>int\<close>. A dictionary
  whose order matters is an association list. An exception is a value: every function that
  can raise returns a sum or an option, and every \<^verbatim>\<open>try/except\<close> is a case distinction.
\<close>

section \<open>Dictionaries as association lists\<close>

text \<open>
  A Python \<^verbatim>\<open>dict\<close> keeps insertion order: assigning to an existing key keeps the key's
  position, assigning to a new key appends.
\<close>

fun dict_get :: "('k \<times> 'v) list \<Rightarrow> 'k \<Rightarrow> 'v option" where
  "dict_get [] k = None"
| "dict_get ((k', v) # kvs) k = (if k' = k then Some v else dict_get kvs k)"

fun dict_set :: "'k \<Rightarrow> 'v \<Rightarrow> ('k \<times> 'v) list \<Rightarrow> ('k \<times> 'v) list" where
  "dict_set k v [] = [(k, v)]"
| "dict_set k v ((k', v') # kvs) = (if k' = k then (k, v) # kvs else (k', v') # dict_set k v kvs)"

fun dict_del :: "'k \<Rightarrow> ('k \<times> 'v) list \<Rightarrow> ('k \<times> 'v) list" where
  "dict_del k [] = []"
| "dict_del k ((k', v') # kvs) = (if k' = k then kvs else (k', v') # dict_del k kvs)"

section \<open>Retry executor (\<^verbatim>\<open>retry_handler.py\<close>)\<close>

text \<open>
  The exception classes the default retryable list names; any other class is
  \<open>OtherExceptionType\<close> with its name. Whether an exception is an instance of a class
  (\<^verbatim>\<open>isinstance\<close>, which follows the class hierarchy) is a parameter \<open>isinstance\<close> of the
  functions below.
\<close>

datatype exc_type =
    httpx_TimeoutException | httpx_NetworkError | httpx_ConnectError | httpx_ReadTimeout
  | ConnectionError | TimeoutError | OtherExceptionType string

record RetryConfig =
  max_retries :: int
  initial_delay :: real
  max_delay :: real
  exponential_base :: real
  retryable_exceptions :: "exc_type list"

definition default_retryable_exceptions :: "exc_type list" where
  "default_retryable_exceptions =
     [httpx_TimeoutException, httpx_NetworkError, httpx_ConnectError, httpx_ReadTimeout,
      ConnectionError, TimeoutError]"

text \<open>
  \<^verbatim>\<open>RetryConfig.__init__\<close>: \<^verbatim>\<open>retryable_exceptions or [...]\<close> takes the default list for
  \<^verbatim>\<open>None\<close> and for the empty list alike.
\<close>

definition RetryConfig_init ::
  "int \<Rightarrow> real \<Rightarrow> real \<Rightarrow> real \<Rightarrow> exc_type list option \<Rightarrow> RetryConfig" where
  "RetryConfig_init mr idl md eb re =
     \<lparr>max_retries = mr, initial_delay = idl, max_delay = md, exponential_base = eb,
      retryable_exceptions =
        (case re of None \<Rightarrow> default_retryable_exceptions
         | Some [] \<Rightarrow> default_retryable_exceptions
         | Some (t # ts) \<Rightarrow> t # ts)\<rparr>"

text \<open>
  What a call of \<^verbatim>\<open>retry_with_backoff\<close> ends with: the operation's result, an exception
  of the operation, or the \<^verbatim>\<open>TypeError\<close> of \<^verbatim>\<open>raise last_exception\<close> when
  \<^verbatim>\<open>last_exception\<close> is still \<^verbatim>\<open>None\<close> (the loop body never ran). What it does on the
  way is a list of events: an invocation of the operation, or a sleep of the given delay.
\<close>

datatype ('e, 'r) outcome = Returned 'r | Raised 'e | RaisedTypeError

datatype event = Invoke | Sleep real

definition is_retryable :: "('e \<Rightarrow> exc_type \<Rightarrow> bool) \<Rightarrow> RetryConfig \<Rightarrow> 'e \<Rightarrow> bool" where
  "is_retryable isinstance config e = list_ex (isinstance e) (retryable_exceptions config)"

text \<open>
  The loop \<^verbatim>\<open>for attempt in range(config.max_retries + 1)\<close>, as recursion over the list of
  attempts. The operation is \<open>func\<close>: \<open>func k\<close> is what its invocation in attempt \<open>k\<close>
  returns (\<open>Inr\<close>) or raises (\<open>Inl\<close>), so an operation whose behaviour changes from call to
  call is covered. The loop's state is \<open>delay\<close> and \<open>last_exception\<close>.
\<close>

fun retry_loop ::
  "('e \<Rightarrow> exc_type \<Rightarrow> bool) \<Rightarrow> (nat \<Rightarrow> 'e + 'r) \<Rightarrow> RetryConfig \<Rightarrow> int list \<Rightarrow> real \<Rightarrow> 'e option
     \<Rightarrow> ('e, 'r) outcome \<times> event list" where
  "retry_loop isinstance func config [] delay last_exception =
     ((case last_exception of None \<Rightarrow> RaisedTypeError | Some e \<Rightarrow> Raised e), [])"
| "retry_loop isinstance func config (attempt # rest) delay last_exception =
     (case func (nat attempt) of
        Inr r \<Rightarrow> (Returned r, [Invoke])
      | Inl e \<Rightarrow>
          if \<not> is_retryable isinstance config e then (Raised e, [Invoke])
          else if attempt < max_retries config then
            (case retry_loop isinstance func config rest
                    (min (delay * exponential_base config) (max_delay config)) (Some e) of
               (res, evs) \<Rightarrow> (res, Invoke # Sleep delay # evs))
          else
            (case retry_loop isinstance func config rest delay (Some e) of
               (res, evs) \<Rightarrow> (res, Invoke # evs)))"

definition retry_with_backoff ::
  "('e \<Rightarrow> exc_type \<Rightarrow> bool) \<Rightarrow> (nat \<Rightarrow> 'e + 'r) \<Rightarrow> RetryConfig option
     \<Rightarrow> ('e, 'r) outcome \<times> event list" where
  "retry_with_backoff isinstance func config_opt =
     (let config = (case config_opt of None \<Rightarrow> RetryConfig_init 3 1 60 2 None | Some c \<Rightarrow> c)
      in retry_loop isinstance func config [0..max_retries config] (initial_delay config) None)"

subsection \<open>The delays and events of a run\<close>

text \<open>
  The loop's variable \<^verbatim>\<open>delay\<close>: it is \<^verbatim>\<open>config.initial_delay\<close> before the loop and becomes
  \<^verbatim>\<open>min(delay * config.exponential_base, config.max_delay)\<close> after each sleep, so
  \<open>delay_seq c k\<close> is the delay slept after the failure of attempt \<open>k\<close>. The first delay
  is \<open>initial_delay\<close> as it is: the cap is applied only when the delay is multiplied.
  \<open>backoff_events c d n\<close> is the event list of \<open>n\<close> retried attempts and one last attempt,
  sleeping between any two of them, \<open>d\<close> the first time.
\<close>

definition next_delay :: "RetryConfig \<Rightarrow> real \<Rightarrow> real" where
  "next_delay c d = min (d * exponential_base c) (max_delay c)"


fun backoff_events :: "RetryConfig \<Rightarrow> real \<Rightarrow> nat \<Rightarrow> event list" where
  "backoff_events c d 0 = [Invoke]"
| "backoff_events c d (Suc n) = Invoke # Sleep d # backoff_events c (next_delay c d) n"



definition retryable_failure :: "('e \<Rightarrow> exc_type \<Rightarrow> bool) \<Rightarrow> RetryConfig \<Rightarrow> 'e + 'r \<Rightarrow> bool" where
  "retryable_failure isinstance c x = (case x of Inl e \<Rightarrow> is_retryable isinstance c e | Inr _ \<Rightarrow> False)"

definition outcome_of :: "'e + 'r \<Rightarrow> ('e, 'r) outcome" where
  "outcome_of x = (case x of Inl e \<Rightarrow> Raised e | Inr r \<Rightarrow> Returned r)"

subsection \<open>The delay in the specification's words\<close>


section \<open>Circuit breaker (\<^verbatim>\<open>retry_handler.py\<close>)\<close>

text \<open>
  The object's attributes; \<open>state\<close> is the string the code stores (\<^verbatim>\<open>"closed"\<close>,
  \<^verbatim>\<open>"open"\<close>, \<^verbatim>\<open>"half_open"\<close>).
\<close>

record CircuitBreaker =
  failure_threshold :: int
  recovery_timeout :: real
  half_open_max_calls :: int
  failure_count :: int
  last_failure_time :: "real option"
  state :: string
  half_open_calls :: int

definition CircuitBreaker_init :: "int \<Rightarrow> real \<Rightarrow> int \<Rightarrow> CircuitBreaker" where
  "CircuitBreaker_init ft rt hm =
     \<lparr>failure_threshold = ft, recovery_timeout = rt, half_open_max_calls = hm,
      failure_count = 0, last_failure_time = None, state = ''closed'', half_open_calls = 0\<rparr>"

text \<open>
  A call ends with the function's result, with the function's exception, or with the
  breaker's own exception \<^verbatim>\<open>Circuit breaker is OPEN\<close> (carrying the seconds left, when
  the code computes them).
\<close>

datatype ('e, 'r) call_outcome = CallReturned 'r | CallRaised 'e | CircuitOpen "real option"

text \<open>
  The check at the head of \<^verbatim>\<open>call\<close>. \<open>now\<close> is what \<^verbatim>\<open>time.time()\<close> returns there.
  \<^verbatim>\<open>if self.last_failure_time:\<close> is false for \<^verbatim>\<open>None\<close> and for \<^verbatim>\<open>0.0\<close>.
\<close>

definition check_circuit :: "CircuitBreaker \<Rightarrow> real \<Rightarrow> real option + CircuitBreaker" where
  "check_circuit self now =
     (if state self = ''open'' then
        (case last_failure_time self of
           None \<Rightarrow> Inl None
         | Some t \<Rightarrow>
             if t = 0 then Inl None
             else (let elapsed = now - t in
                   if elapsed \<ge> recovery_timeout self
                   then Inr (self\<lparr>state := ''half_open'', half_open_calls := 0\<rparr>)
                   else Inl (Some (recovery_timeout self - elapsed))))
      else Inr self)"

definition on_success :: "CircuitBreaker \<Rightarrow> CircuitBreaker" where
  "on_success self =
     (if state self = ''half_open'' then
        (let s1 = self\<lparr>half_open_calls := half_open_calls self + 1\<rparr> in
         if half_open_calls s1 \<ge> half_open_max_calls s1
         then s1\<lparr>state := ''closed'', failure_count := 0, half_open_calls := 0\<rparr>
         else s1)
      else if state self = ''closed'' then self\<lparr>failure_count := 0\<rparr>
      else self)"

definition on_failure :: "CircuitBreaker \<Rightarrow> real \<Rightarrow> CircuitBreaker" where
  "on_failure self now_fail =
     (let s1 = self\<lparr>failure_count := failure_count self + 1, last_failure_time := Some now_fail\<rparr> in
      if failure_count s1 \<ge> failure_threshold s1 then s1\<lparr>state := ''open''\<rparr> else s1)"

text \<open>
  \<^verbatim>\<open>CircuitBreaker.call\<close>: \<open>func_result\<close> is what the protected function returns or
  raises in this call, \<open>now_fail\<close> what \<^verbatim>\<open>time.time()\<close> returns in the \<^verbatim>\<open>except\<close>
  branch.
\<close>

definition call ::
  "CircuitBreaker \<Rightarrow> real \<Rightarrow> 'e + 'r \<Rightarrow> real \<Rightarrow> ('e, 'r) call_outcome \<times> CircuitBreaker" where
  "call self now func_result now_fail =
     (case check_circuit self now of
        Inl retry_after \<Rightarrow> (CircuitOpen retry_after, self)
      | Inr s1 \<Rightarrow>
          (case func_result of
             Inr result \<Rightarrow> (CallReturned result, on_success s1)
           | Inl e \<Rightarrow> (CallRaised e, on_failure s1 now_fail)))"

text \<open>
  The states a breaker can be in: what the constructor builds, and what a call leaves
  behind. (The payloads of the function's result and exception do not influence the state;
  they are \<open>unit\<close> here.)
\<close>

inductive reachable :: "CircuitBreaker \<Rightarrow> bool" where
  init: "reachable (CircuitBreaker_init ft rt hm)"
| step: "reachable s \<Longrightarrow> reachable (snd (call s now (func_result :: unit + unit) now_fail))"

section \<open>Job queue (\<^verbatim>\<open>job_queue.py\<close>)\<close>

datatype JobStatus = PENDING | QUEUED | PROCESSING | COMPLETED | FAILED | RETRYING | CANCELLED

text \<open>
  A job is the dictionary \<^verbatim>\<open>enqueue_job\<close> builds; \<open>job_status\<close> is the member of
  \<^verbatim>\<open>JobStatus\<close> whose value the dictionary holds. The keys \<^verbatim>\<open>error_message\<close> and
  \<^verbatim>\<open>result\<close> are absent until \<^verbatim>\<open>update_job_status\<close> sets them. The payload type \<open>'a\<close>
  is left open. Every job the queue holds has all the keys, so the defaults of
  \<^verbatim>\<open>job.get(key, default)\<close> are never taken.
\<close>

record 'a job =
  job_id :: string
  job_type :: string
  job_data :: 'a
  job_status :: JobStatus
  job_priority :: int
  job_max_retries :: int
  job_retry_count :: int
  job_created_at :: string
  job_updated_at :: string
  job_error_message :: "string option"
  job_result :: "'a option"

subsection \<open>The Redis server\<close>

text \<open>
  What the code uses of Redis: the keyed records \<^verbatim>\<open>doc_job:<id>\<close> (\<open>store\<close>, keyed by the
  job id; the JSON text of a record is represented by the job it encodes) and the sorted
  set \<^verbatim>\<open>document_processing_queue\<close> (\<open>queue\<close>: member and score). The seven-day expiry
  of a record is not modelled. Any command can raise (a lost connection): \<open>faults\<close> says,
  for each command to come, whether it raises; past its end no command raises.
\<close>

record 'a redis =
  store :: "(string \<times> 'a job) list"
  queue :: "(string \<times> int) list"
  faults :: "bool list"

definition raises :: "'a redis \<Rightarrow> bool \<times> 'a redis" where
  "raises r = (case faults r of [] \<Rightarrow> (False, r) | f # fs \<Rightarrow> (f, r\<lparr>faults := fs\<rparr>))"

text \<open>Each command returns \<open>None\<close> when it raises.\<close>

definition redis_setex :: "string \<Rightarrow> 'a job \<Rightarrow> 'a redis \<Rightarrow> unit option \<times> 'a redis" where
  "redis_setex k v r =
     (case raises r of
        (True, r') \<Rightarrow> (None, r')
      | (False, r') \<Rightarrow> (Some (), r'\<lparr>store := dict_set k v (store r')\<rparr>))"

definition redis_get :: "string \<Rightarrow> 'a redis \<Rightarrow> 'a job option option \<times> 'a redis" where
  "redis_get k r =
     (case raises r of
        (True, r') \<Rightarrow> (None, r')
      | (False, r') \<Rightarrow> (Some (dict_get (store r') k), r'))"

definition redis_zadd :: "string \<Rightarrow> int \<Rightarrow> 'a redis \<Rightarrow> unit option \<times> 'a redis" where
  "redis_zadd m score r =
     (case raises r of
        (True, r') \<Rightarrow> (None, r')
      | (False, r') \<Rightarrow> (Some (), r'\<lparr>queue := dict_set m score (queue r')\<rparr>))"

definition redis_zrem :: "string \<Rightarrow> 'a redis \<Rightarrow> unit option \<times> 'a redis" where
  "redis_zrem m r =
     (case raises r of
        (True, r') \<Rightarrow> (None, r')
      | (False, r') \<Rightarrow> (Some (), r'\<lparr>queue := dict_del m (queue r')\<rparr>))"

text \<open>
  \<^verbatim>\<open>zrevrange(queue, 0, 0, withscores=True)\<close>: the member of highest score, the greatest
  member among those of equal score; the empty list for an empty set.
\<close>

fun zset_top :: "(string \<times> int) list \<Rightarrow> (string \<times> int) list" where
  "zset_top [] = []"
| "zset_top ((m, s) # ms) =
     (case zset_top ms of
        [] \<Rightarrow> [(m, s)]
      | (m', s') # _ \<Rightarrow> if s' < s \<or> (s' = s \<and> m' < m) then [(m, s)] else [(m', s')])"

definition redis_zrevrange_0_0 :: "'a redis \<Rightarrow> (string \<times> int) list option \<times> 'a redis" where
  "redis_zrevrange_0_0 r =
     (case raises r of
        (True, r') \<Rightarrow> (None, r')
      | (False, r') \<Rightarrow> (Some (zset_top (queue r')), r'))"

subsection \<open>The queue object\<close>

text \<open>
  \<open>redis_client\<close> is the client together with the server it talks to. \<^verbatim>\<open>initialize\<close>
  sets \<^verbatim>\<open>redis_available\<close> and \<^verbatim>\<open>redis_client\<close> together, so the test
  \<^verbatim>\<open>self.redis_available and self.redis_client\<close> is \<open>redis_available\<close>.
  \<open>fallback_queue\<close> is the in-process dictionary.
\<close>

record 'a JobQueue =
  redis_client :: "'a redis"
  redis_available :: bool
  fallback_queue :: "(string \<times> 'a job) list"

definition JobQueue_init :: "'a JobQueue" where
  "JobQueue_init =
     \<lparr>redis_client = \<lparr>store = [], queue = [], faults = []\<rparr>, redis_available = False,
      fallback_queue = []\<rparr>"

text \<open>
  \<^verbatim>\<open>initialize\<close>: \<open>ping_ok\<close> says whether the connection and its ping succeed, \<open>fs\<close> is
  the fault schedule of the connection obtained.
\<close>

definition initialize :: "bool \<Rightarrow> bool list \<Rightarrow> 'a JobQueue \<Rightarrow> 'a JobQueue" where
  "initialize ping_ok fs self =
     (if ping_ok then self\<lparr>redis_client := (redis_client self)\<lparr>faults := fs\<rparr>, redis_available := True\<rparr>
      else self\<lparr>redis_available := False\<rparr>)"

definition redis_cmd ::
  "('a redis \<Rightarrow> 'x option \<times> 'a redis) \<Rightarrow> 'a JobQueue \<Rightarrow> 'x option \<times> 'a JobQueue" where
  "redis_cmd f self = (case f (redis_client self) of (res, r') \<Rightarrow> (res, self\<lparr>redis_client := r'\<rparr>))"

definition fallback_store :: "string \<Rightarrow> 'a job \<Rightarrow> 'a JobQueue \<Rightarrow> 'a JobQueue" where
  "fallback_store k j self = self\<lparr>fallback_queue := dict_set k j (fallback_queue self)\<rparr>"

text \<open>
  \<^verbatim>\<open>enqueue_job\<close>: \<open>uuid4\<close> is the fresh id \<^verbatim>\<open>uuid.uuid4()\<close> returns, \<open>now\<close> the
  timestamp.
\<close>

definition enqueue_job ::
  "string \<Rightarrow> string \<Rightarrow> string \<Rightarrow> 'a \<Rightarrow> int \<Rightarrow> int \<Rightarrow> 'a JobQueue \<Rightarrow> string \<times> 'a JobQueue" where
  "enqueue_job uuid4 now jtype jdata priority retries_max self =
     (let job = \<lparr>job_id = uuid4, job_type = jtype, job_data = jdata, job_status = PENDING,
                 job_priority = priority, job_max_retries = retries_max, job_retry_count = 0,
                 job_created_at = now, job_updated_at = now, job_error_message = None,
                 job_result = None\<rparr>
      in if redis_available self then
           (case redis_cmd (redis_setex uuid4 job) self of
              (None, s1) \<Rightarrow> (uuid4, fallback_store uuid4 job s1)
            | (Some _, s1) \<Rightarrow>
                (case redis_cmd (redis_zadd uuid4 priority) s1 of
                   (None, s2) \<Rightarrow> (uuid4, fallback_store uuid4 job s2)
                 | (Some _, s2) \<Rightarrow> (uuid4, s2)))
         else (uuid4, fallback_store uuid4 job self))"

text \<open>
  \<^verbatim>\<open>get_job\<close> returns a fresh dictionary when it decodes a Redis record, and the very
  dictionary held in \<^verbatim>\<open>fallback_queue\<close> otherwise. The callers mutate what they get, so
  the model returns, with the job, whether it is the shared dictionary (\<open>True\<close>).
\<close>

definition fallback_get :: "string \<Rightarrow> 'a JobQueue \<Rightarrow> ('a job \<times> bool) option" where
  "fallback_get k self = map_option (\<lambda>j. (j, True)) (dict_get (fallback_queue self) k)"

definition get_job :: "string \<Rightarrow> 'a JobQueue \<Rightarrow> ('a job \<times> bool) option \<times> 'a JobQueue" where
  "get_job k self =
     (if redis_available self then
        (case redis_cmd (redis_get k) self of
           (Some (Some job), s1) \<Rightarrow> (Some (job, False), s1)
         | (Some None, s1) \<Rightarrow> (fallback_get k s1, s1)
         | (None, s1) \<Rightarrow> (fallback_get k s1, s1))
      else (fallback_get k self, self))"

text \<open>
  An assignment to a key of the job dictionary: when the dictionary is the shared one, the
  entry of \<^verbatim>\<open>fallback_queue\<close> changes with it.
\<close>

definition mutate :: "bool \<Rightarrow> string \<Rightarrow> 'a job \<Rightarrow> 'a JobQueue \<Rightarrow> 'a JobQueue" where
  "mutate aliased k j self = (if aliased then fallback_store k j self else self)"

text \<open>The tail of \<^verbatim>\<open>update_job_status\<close>: \<^verbatim>\<open>setex\<close>, or the fallback when it raises.\<close>

definition persist :: "string \<Rightarrow> 'a job \<Rightarrow> 'a JobQueue \<Rightarrow> 'a JobQueue" where
  "persist k j self =
     (if redis_available self then
        (case redis_cmd (redis_setex k j) self of
           (Some _, s1) \<Rightarrow> s1
         | (None, s1) \<Rightarrow> fallback_store k j s1)
      else fallback_store k j self)"

text \<open>
  \<^verbatim>\<open>if error_message:\<close> is false for \<^verbatim>\<open>None\<close> and for the empty string;
  \<^verbatim>\<open>if result:\<close> is false for \<^verbatim>\<open>None\<close> (an empty result dictionary is passed as
  \<open>None\<close> here).
\<close>

definition set_status ::
  "JobStatus \<Rightarrow> string option \<Rightarrow> 'a option \<Rightarrow> string \<Rightarrow> 'a job \<Rightarrow> 'a job" where
  "set_status status error_message result now job =
     job\<lparr>job_status := status, job_updated_at := now,
         job_error_message :=
           (case error_message of None \<Rightarrow> job_error_message job
            | Some m \<Rightarrow> if m = [] then job_error_message job else Some m),
         job_result := (case result of None \<Rightarrow> job_result job | Some x \<Rightarrow> Some x)\<rparr>"

text \<open>
  \<^verbatim>\<open>update_job_status\<close>; \<open>update_job_status_obj\<close> also returns the dictionary it
  mutated, which \<^verbatim>\<open>dequeue_job\<close> may hold a reference to.
\<close>

definition update_job_status_obj ::
  "string \<Rightarrow> JobStatus \<Rightarrow> string option \<Rightarrow> 'a option \<Rightarrow> string \<Rightarrow> 'a JobQueue
     \<Rightarrow> ('a job \<times> bool) option \<times> 'a JobQueue" where
  "update_job_status_obj k status error_message result now self =
     (case get_job k self of
        (None, s1) \<Rightarrow> (None, s1)
      | (Some (job, aliased), s1) \<Rightarrow>
          (let job' = set_status status error_message result now job
           in (Some (job', aliased), persist k job' (mutate aliased k job' s1))))"

definition update_job_status ::
  "string \<Rightarrow> JobStatus \<Rightarrow> string option \<Rightarrow> 'a option \<Rightarrow> string \<Rightarrow> 'a JobQueue \<Rightarrow> bool \<times> 'a JobQueue" where
  "update_job_status k status error_message result now self =
     (case update_job_status_obj k status error_message result now self of
        (None, s1) \<Rightarrow> (False, s1)
      | (Some _, s1) \<Rightarrow> (True, s1))"

text \<open>
  The in-memory loop of \<^verbatim>\<open>dequeue_job\<close>: the first pending job of the dictionary's items
  sorted by priority, highest first. Python's sort is stable, also with
  \<^verbatim>\<open>reverse=True\<close>, as is \<^const>\<open>sort_key\<close> on the negated priority. The job returned
  is the shared dictionary after its mutation.
\<close>

definition dequeue_fallback :: "string \<Rightarrow> 'a JobQueue \<Rightarrow> 'a job option \<times> 'a JobQueue" where
  "dequeue_fallback now self =
     (case find (\<lambda>(k, job). job_status job = PENDING)
             (sort_key (\<lambda>(k, job). - job_priority job) (fallback_queue self)) of
        None \<Rightarrow> (None, self)
      | Some (k, job) \<Rightarrow>
          (let job' = job\<lparr>job_status := PROCESSING, job_updated_at := now\<rparr>
           in (Some job', fallback_store k job' self)))"

text \<open>
  \<^verbatim>\<open>dequeue_job\<close>. On the Redis path the job returned is the dictionary the first
  \<^verbatim>\<open>get_job\<close> returned: it shows the new status only when it is the shared dictionary
  and \<^verbatim>\<open>update_job_status\<close> mutated that same dictionary.
\<close>

definition dequeue_job :: "string \<Rightarrow> 'a JobQueue \<Rightarrow> 'a job option \<times> 'a JobQueue" where
  "dequeue_job now self =
     (if redis_available self then
        (case redis_cmd redis_zrevrange_0_0 self of
           (None, s1) \<Rightarrow> dequeue_fallback now s1
         | (Some [], s1) \<Rightarrow> (None, s1)
         | (Some ((k, score) # _), s1) \<Rightarrow>
             (case get_job k s1 of
                (None, s2) \<Rightarrow> dequeue_fallback now s2
              | (Some (job, aliased), s2) \<Rightarrow>
                  if job_status job = PENDING then
                    (case redis_cmd (redis_zrem k) s2 of
                       (None, s3) \<Rightarrow> dequeue_fallback now s3
                     | (Some _, s3) \<Rightarrow>
                         (case update_job_status_obj k PROCESSING None None now s3 of
                            (Some (job', True), s4) \<Rightarrow> (Some (if aliased then job' else job), s4)
                          | (_, s4) \<Rightarrow> (Some job, s4)))
                  else dequeue_fallback now s2))
      else dequeue_fallback now self)"

definition retry_job :: "string \<Rightarrow> string \<Rightarrow> 'a JobQueue \<Rightarrow> bool \<times> 'a JobQueue" where
  "retry_job k now self =
     (case get_job k self of
        (None, s1) \<Rightarrow> (False, s1)
      | (Some (job, aliased), s1) \<Rightarrow>
          (let retry_count = job_retry_count job; retries_max = job_max_retries job
           in if retry_count \<ge> retries_max
              then (False, snd (update_job_status k FAILED None None now s1))
              else
                (let job' = job\<lparr>job_retry_count := retry_count + 1, job_status := RETRYING,
                                job_updated_at := now\<rparr>;
                     s2 = mutate aliased k job' s1
                 in if redis_available s2 then
                      (case redis_cmd (redis_setex k job') s2 of
                         (None, s3) \<Rightarrow> (True, fallback_store k job' s3)
                       | (Some _, s3) \<Rightarrow>
                           (case redis_cmd (redis_zadd k (job_priority job' - 1)) s3 of
                              (None, s4) \<Rightarrow> (True, fallback_store k job' s4)
                            | (Some _, s4) \<Rightarrow> (True, s4)))
                    else (True, fallback_store k job' s2))))"

subsection \<open>The Redis path of \<^verbatim>\<open>dequeue_job\<close>, command by command\<close>

text \<open>
  The queue runs as cooperative tasks of one thread: a task runs until it awaits, and the
  Redis path of \<^verbatim>\<open>dequeue_job\<close> awaits at each Redis command (\<^verbatim>\<open>zrevrange\<close>,
  \<^verbatim>\<open>get\<close>, \<^verbatim>\<open>zrem\<close>, and the \<^verbatim>\<open>get\<close> and \<^verbatim>\<open>setex\<close> of
  \<^verbatim>\<open>update_job_status\<close>), where another task may run. The in-memory loop awaits nothing.
  A task of \<^verbatim>\<open>dequeue_job\<close> is therefore a program counter with the local variables
  alive at it, and a step is one Redis command together with the code that follows it up to
  the next command. The local variables hold the dictionaries by value; that is exact as
  long as no job is shared with \<^verbatim>\<open>fallback_queue\<close>.
\<close>

datatype 'a dq_task =
    DQ_start
  | DQ_have_top string
  | DQ_have_job string "'a job" bool
  | DQ_removed string "'a job" bool
  | DQ_updating string "'a job" bool "'a job" bool
  | DQ_done "'a job option"

definition dq_return :: "'a job option \<times> 'a JobQueue \<Rightarrow> 'a dq_task \<times> 'a JobQueue" where
  "dq_return x = (DQ_done (fst x), snd x)"

fun dq_step :: "string \<Rightarrow> 'a dq_task \<Rightarrow> 'a JobQueue \<Rightarrow> 'a dq_task \<times> 'a JobQueue" where
  "dq_step now DQ_start self =
     (if redis_available self then
        (case redis_cmd redis_zrevrange_0_0 self of
           (None, s1) \<Rightarrow> dq_return (dequeue_fallback now s1)
         | (Some [], s1) \<Rightarrow> (DQ_done None, s1)
         | (Some ((k, score) # _), s1) \<Rightarrow> (DQ_have_top k, s1))
      else dq_return (dequeue_fallback now self))"
| "dq_step now (DQ_have_top k) self =
     (case get_job k self of
        (None, s2) \<Rightarrow> dq_return (dequeue_fallback now s2)
      | (Some (job, aliased), s2) \<Rightarrow>
          if job_status job = PENDING then (DQ_have_job k job aliased, s2)
          else dq_return (dequeue_fallback now s2))"
| "dq_step now (DQ_have_job k job aliased) self =
     (case redis_cmd (redis_zrem k) self of
        (None, s3) \<Rightarrow> dq_return (dequeue_fallback now s3)
      | (Some _, s3) \<Rightarrow> (DQ_removed k job aliased, s3))"
| "dq_step now (DQ_removed k job aliased) self =
     (case get_job k self of
        (None, s1) \<Rightarrow> (DQ_done (Some job), s1)
      | (Some (job2, aliased2), s1) \<Rightarrow>
          (let job' = set_status PROCESSING None None now job2
           in (DQ_updating k job aliased job' aliased2, mutate aliased2 k job' s1)))"
| "dq_step now (DQ_updating k job aliased job' aliased2) self =
     (DQ_done (Some (if aliased \<and> aliased2 then job' else job)), persist k job' self)"
| "dq_step now (DQ_done r) self = (DQ_done r, self)"

fun dq_steps :: "string \<Rightarrow> nat \<Rightarrow> 'a dq_task \<times> 'a JobQueue \<Rightarrow> 'a dq_task \<times> 'a JobQueue" where
  "dq_steps now 0 c = c"
| "dq_steps now (Suc n) (t, self) = dq_steps now n (dq_step now t self)"

text \<open>
  Two tasks on one queue object: the schedule says, step by step, which of them runs
  (\<open>True\<close> the first).
\<close>

fun interleave ::
  "string \<Rightarrow> bool list \<Rightarrow> 'a dq_task \<times> 'a dq_task \<times> 'a JobQueue
     \<Rightarrow> 'a dq_task \<times> 'a dq_task \<times> 'a JobQueue" where
  "interleave now [] c = c"
| "interleave now (first # sched) (a, b, self) =
     (if first then (case dq_step now a self of (a', s') \<Rightarrow> interleave now sched (a', b, s'))
      else (case dq_step now b self of (b', s') \<Rightarrow> interleave now sched (a, b', s')))"

definition returned_id :: "'a dq_task \<Rightarrow> string option" where
  "returned_id t = (case t of DQ_done (Some j) \<Rightarrow> Some (job_id j) | _ \<Rightarrow> None)"

subsection \<open>Stating the queue's properties\<close>






definition quiet :: "'a JobQueue \<Rightarrow> bool" where
  "quiet self = (faults (redis_client self) = [])"

definition lookup :: "string \<Rightarrow> 'a JobQueue \<Rightarrow> 'a job option" where
  "lookup k self = map_option fst (fst (get_job k self))"

definition example_job :: "string \<Rightarrow> JobStatus \<Rightarrow> int \<Rightarrow> unit job" where
  "example_job k st prio =
     \<lparr>job_id = k, job_type = ''process_document'', job_data = (), job_status = st,
      job_priority = prio, job_max_retries = 3, job_retry_count = 0,
      job_created_at = ''t0'', job_updated_at = ''t0'', job_error_message = None,
      job_result = None\<rparr>"

section \<open>Document status store (\<^verbatim>\<open>document_db_service.py\<close>)\<close>

subsection \<open>Python values and JSON\<close>

text \<open>
  The payloads the store serializes (\<^verbatim>\<open>Dict[str, Any]\<close>): the values
  \<^verbatim>\<open>ensure_serializable\<close> tells apart. A dictionary has string keys. An image is its
  size, mode and format; a \<^verbatim>\<open>datetime\<close>, \<^verbatim>\<open>date\<close> or \<^verbatim>\<open>time\<close> is the string its
  \<^verbatim>\<open>isoformat()\<close> returns; any other object is the string its \<^verbatim>\<open>str()\<close> returns, or
  \<open>None\<close> when \<^verbatim>\<open>str()\<close> raises.
\<close>

datatype pyval =
    PyNone | PyBool bool | PyInt int | PyFloat real | PyStr string
  | PyList "pyval list" | PyTuple "pyval list" | PyDict "(string \<times> pyval) list"
  | PyImage int int string "string option"
  | PyDatetime string
  | PyObject "string option"

fun ensure_serializable :: "pyval \<Rightarrow> pyval" where
  "ensure_serializable (PyImage w h mode fmt) =
     PyDict [(''type'', PyStr ''pil_image''), (''size'', PyTuple [PyInt w, PyInt h]),
             (''mode'', PyStr mode),
             (''format'', (case fmt of None \<Rightarrow> PyNone | Some f \<Rightarrow> PyStr f))]"
| "ensure_serializable (PyDatetime isoformat) = PyStr isoformat"
| "ensure_serializable (PyDict kvs) = PyDict (map (\<lambda>kv. (fst kv, ensure_serializable (snd kv))) kvs)"
| "ensure_serializable (PyList xs) = PyList (map ensure_serializable xs)"
| "ensure_serializable (PyTuple xs) = PyList (map ensure_serializable xs)"
| "ensure_serializable (PyObject s) = (case s of Some t \<Rightarrow> PyStr t | None \<Rightarrow> PyNone)"
| "ensure_serializable v = v"

text \<open>
  A JSON text is represented by the value it encodes, so \<^verbatim>\<open>json.loads\<close> of a stored
  text is the identity and \<^verbatim>\<open>json.dumps\<close> is the encoding: a tuple becomes an array,
  and a value the encoder does not know raises \<^verbatim>\<open>TypeError\<close> (\<open>None\<close>).
\<close>

fun json_dumps :: "pyval \<Rightarrow> pyval option" where
  "json_dumps (PyList xs) = map_option PyList (those (map json_dumps xs))"
| "json_dumps (PyTuple xs) = map_option PyList (those (map json_dumps xs))"
| "json_dumps (PyDict kvs) =
     map_option PyDict (those (map (\<lambda>kv. map_option (Pair (fst kv)) (json_dumps (snd kv))) kvs))"
| "json_dumps (PyImage w h mode fmt) = None"
| "json_dumps (PyDatetime isoformat) = None"
| "json_dumps (PyObject s) = None"
| "json_dumps v = Some v"

definition parse_jsonb_field :: "pyval \<Rightarrow> pyval" where
  "parse_jsonb_field json_text = json_text"

fun truthy :: "pyval \<Rightarrow> bool" where
  "truthy PyNone = False"
| "truthy (PyBool b) = b"
| "truthy (PyInt i) = (i \<noteq> 0)"
| "truthy (PyFloat x) = (x \<noteq> 0)"
| "truthy (PyStr s) = (s \<noteq> [])"
| "truthy (PyList xs) = (xs \<noteq> [])"
| "truthy (PyTuple xs) = (xs \<noteq> [])"
| "truthy (PyDict kvs) = (kvs \<noteq> [])"
| "truthy _ = True"

text \<open>\<^verbatim>\<open>metadata or {}\<close>.\<close>

definition or_empty_dict :: "pyval option \<Rightarrow> pyval" where
  "or_empty_dict m = (case m of None \<Rightarrow> PyDict [] | Some v \<Rightarrow> if truthy v then v else PyDict [])"

text \<open>
  The values JSON has as they are: no tuple, image, date or other object anywhere inside.
\<close>

fun json_plain :: "pyval \<Rightarrow> bool" where
  "json_plain (PyList xs) = list_all json_plain xs"
| "json_plain (PyDict kvs) = list_all (\<lambda>kv. json_plain (snd kv)) kvs"
| "json_plain (PyTuple xs) = False"
| "json_plain (PyImage w h mode fmt) = False"
| "json_plain (PyDatetime isoformat) = False"
| "json_plain (PyObject s) = False"
| "json_plain v = True"

definition json_form :: "pyval \<Rightarrow> pyval" where
  "json_form v = (case json_dumps v of Some j \<Rightarrow> j | None \<Rightarrow> PyNone)"

subsection \<open>The database\<close>

text \<open>
  The tables, with the columns the service reads or writes, as lists of rows in insertion
  order (the order of \<^verbatim>\<open>ORDER BY created_at\<close>). A JSONB column holds the JSON text
  written to it. Document ids are well-formed UUID strings (\<^verbatim>\<open>uuid.UUID\<close> accepts them).
  \<open>db_clock\<close> is the server's \<^verbatim>\<open>NOW()\<close>; it advances with every statement.
  Any statement can raise: \<open>db_faults\<close> says, for each statement to come, whether it does.
\<close>

record document_row =
  doc_id :: string
  doc_filename :: string
  doc_status :: string
  doc_processing_stage :: string
  doc_document_type :: string
  doc_upload_timestamp :: nat

record stage_row =
  ps_document_id :: string
  ps_stage_name :: string
  ps_status :: string
  ps_started_at :: "nat option"
  ps_completed_at :: "nat option"
  ps_error_message :: "string option"
  ps_processing_time_ms :: "int option"
  ps_metadata :: pyval

record extraction_row =
  er_document_id :: string
  er_stage :: string
  er_raw_data :: pyval
  er_processed_data :: pyval
  er_confidence_score :: real
  er_processing_time_ms :: int
  er_model_used :: string
  er_metadata :: pyval

record quality_row =
  qs_document_id :: string
  qs_overall_score :: real
  qs_completeness_score :: real
  qs_accuracy_score :: real
  qs_compliance_score :: real
  qs_quality_score :: real
  qs_decision :: string
  qs_reasoning :: pyval
  qs_issues_found :: pyval
  qs_confidence :: real
  qs_judge_model :: string

record routing_row =
  rd_document_id :: string
  rd_routing_action :: string
  rd_routing_reason :: string
  rd_wms_integration_status :: string
  rd_wms_integration_data :: pyval
  rd_human_review_required :: bool

record database =
  documents :: "document_row list"
  processing_stages :: "stage_row list"
  extraction_results :: "extraction_row list"
  quality_scores :: "quality_row list"
  routing_decisions :: "routing_row list"
  db_clock :: nat
  db_faults :: "bool list"

definition db_raises :: "database \<Rightarrow> bool" where
  "db_raises db = (case db_faults db of [] \<Rightarrow> False | f # fs \<Rightarrow> f)"

definition execute :: "(database \<Rightarrow> 'r \<times> database) \<Rightarrow> database \<Rightarrow> 'r option \<times> database" where
  "execute statement db =
     (let db0 = db\<lparr>db_faults := tl (db_faults db)\<rparr>
      in if db_raises db then (None, db0)
         else (case statement db0 of (r, db') \<Rightarrow> (Some r, db'\<lparr>db_clock := Suc (db_clock db')\<rparr>)))"

text \<open>\<^verbatim>\<open>execute_command\<close> returns whether the statement ran; \<^verbatim>\<open>execute_query\<close> the rows.\<close>

definition execute_command :: "(database \<Rightarrow> database) \<Rightarrow> database \<Rightarrow> bool \<times> database" where
  "execute_command statement db =
     (case execute (\<lambda>d. ((), statement d)) db of (r, db') \<Rightarrow> (r \<noteq> None, db'))"

definition execute_query :: "(database \<Rightarrow> 'r) \<Rightarrow> database \<Rightarrow> 'r option \<times> database" where
  "execute_query q db = execute (\<lambda>d. (q d, d)) db"

text \<open>The next \<open>n\<close> statements do not raise.\<close>

definition healthy :: "nat \<Rightarrow> database \<Rightarrow> bool" where
  "healthy n db = list_all (\<lambda>f. \<not> f) (take n (db_faults db))"

subsection \<open>Status and stage records\<close>

text \<open>
  The methods return \<^verbatim>\<open>True\<close> when no statement raised (an \<^verbatim>\<open>UPDATE\<close> that matches no
  row does not raise) and \<^verbatim>\<open>False\<close> from their \<^verbatim>\<open>except\<close> branch.
  \<^verbatim>\<open>processing_stage = COALESCE($2, processing_stage)\<close> keeps the column for \<open>None\<close>.
\<close>

definition update_document_status ::
  "string \<Rightarrow> string \<Rightarrow> string option \<Rightarrow> database \<Rightarrow> bool \<times> database" where
  "update_document_status document_id status processing_stage db =
     execute_command
       (\<lambda>d. d\<lparr>documents :=
               map (\<lambda>r. if doc_id r = document_id
                         then r\<lparr>doc_status := status,
                                doc_processing_stage :=
                                  (case processing_stage of None \<Rightarrow> doc_processing_stage r
                                   | Some p \<Rightarrow> p)\<rparr>
                         else r) (documents d)\<rparr>)
       db"

definition create_processing_stage ::
  "string \<Rightarrow> string \<Rightarrow> string \<Rightarrow> pyval option \<Rightarrow> database \<Rightarrow> bool \<times> database" where
  "create_processing_stage document_id stage_name status metadata db =
     (case json_dumps (or_empty_dict metadata) of
        None \<Rightarrow> (False, db)
      | Some meta \<Rightarrow>
          execute_command
            (\<lambda>d. d\<lparr>processing_stages := processing_stages d @
                     [\<lparr>ps_document_id = document_id, ps_stage_name = stage_name,
                       ps_status = status, ps_started_at = Some (db_clock d),
                       ps_completed_at = None, ps_error_message = None,
                       ps_processing_time_ms = None, ps_metadata = meta\<rparr>]\<rparr>)
            db)"

text \<open>
  \<^verbatim>\<open>update_processing_stage\<close> always passes \<^verbatim>\<open>json.dumps(metadata or {})\<close>, so
  \<^verbatim>\<open>COALESCE($4, metadata)\<close> takes the new value.
\<close>

definition update_processing_stage ::
  "string \<Rightarrow> string \<Rightarrow> string \<Rightarrow> string option \<Rightarrow> int option \<Rightarrow> pyval option
     \<Rightarrow> database \<Rightarrow> bool \<times> database" where
  "update_processing_stage document_id stage_name status error_message processing_time_ms metadata db =
     (case json_dumps (or_empty_dict metadata) of
        None \<Rightarrow> (False, db)
      | Some meta \<Rightarrow>
          execute_command
            (\<lambda>d. d\<lparr>processing_stages :=
                    map (\<lambda>r. if ps_document_id r = document_id \<and> ps_stage_name r = stage_name
                              then r\<lparr>ps_status := status,
                                     ps_completed_at :=
                                       (if status = ''completed'' then Some (db_clock d)
                                        else ps_completed_at r),
                                     ps_error_message := error_message,
                                     ps_processing_time_ms := processing_time_ms,
                                     ps_metadata := meta\<rparr>
                              else r) (processing_stages d)\<rparr>)
            db)"

subsection \<open>\<^verbatim>\<open>get_document_status\<close>\<close>

text \<open>
  \<^verbatim>\<open>str.replace("_", " ")\<close> and \<^verbatim>\<open>str.title()\<close> on ASCII: a letter is upper-cased
  after a character that is not a letter and lower-cased after a letter.
\<close>

definition ascii_lower :: string where "ascii_lower = ''abcdefghijklmnopqrstuvwxyz''"

definition ascii_upper :: string where "ascii_upper = ''ABCDEFGHIJKLMNOPQRSTUVWXYZ''"

definition is_cased :: "char \<Rightarrow> bool" where
  "is_cased c = (c \<in> set ascii_lower \<or> c \<in> set ascii_upper)"

definition to_upper :: "char \<Rightarrow> char" where
  "to_upper c = (case map_of (zip ascii_lower ascii_upper) c of Some u \<Rightarrow> u | None \<Rightarrow> c)"

definition to_lower :: "char \<Rightarrow> char" where
  "to_lower c = (case map_of (zip ascii_upper ascii_lower) c of Some l \<Rightarrow> l | None \<Rightarrow> c)"

fun title_from :: "bool \<Rightarrow> string \<Rightarrow> string" where
  "title_from previous_cased [] = []"
| "title_from previous_cased (c # cs) =
     (if is_cased c then (if previous_cased then to_lower c else to_upper c) # title_from True cs
      else c # title_from False cs)"

definition title :: "string \<Rightarrow> string" where
  "title s = title_from False s"

definition replace_underscores :: "string \<Rightarrow> string" where
  "replace_underscores s = map (\<lambda>c. if c = CHR ''_'' then CHR '' '' else c) s"

record stage_view =
  sv_name :: string
  sv_status :: string
  sv_started_at :: "nat option"
  sv_completed_at :: "nat option"
  sv_processing_time_ms :: "int option"
  sv_error_message :: "string option"
  sv_metadata :: pyval

record status_view =
  st_document_id :: string
  st_status :: string
  st_current_stage :: string
  st_progress :: int
  st_stages :: "stage_view list"
  st_filename :: string
  st_document_type :: string
  st_upload_timestamp :: nat

text \<open>
  The five default stage dictionaries hold a name and a status only; the other keys of the
  stage entries built from them come out as \<^verbatim>\<open>None\<close>, the metadata as \<^verbatim>\<open>{}\<close>.
\<close>

definition default_stages :: "stage_view list" where
  "default_stages =
     map (\<lambda>n. \<lparr>sv_name = n, sv_status = ''pending'', sv_started_at = None, sv_completed_at = None,
                sv_processing_time_ms = None, sv_error_message = None, sv_metadata = PyDict []\<rparr>)
       [''preprocessing'', ''ocr_extraction'', ''llm_processing'', ''validation'', ''routing'']"

text \<open>
  \<^verbatim>\<open>int((completed_stages / total_stages * 100)) if total_stages > 0 else 0\<close>. The
  quotient is computed exactly here; the float computation gives the same integer for the
  row counts of a pipeline (up to five rows).
\<close>

definition stage_progress :: "stage_row list \<Rightarrow> int" where
  "stage_progress stages =
     (let total_stages = int (length stages);
          completed_stages = int (length (filter (\<lambda>s. ps_status s = ''completed'') stages))
      in if total_stages > 0 then (completed_stages * 100) div total_stages else 0)"

fun current_stage_of :: "stage_row list \<Rightarrow> string" where
  "current_stage_of [] = ''Preprocessing''"
| "current_stage_of (stage # stages) =
     (if ps_status stage = ''processing'' then title (replace_underscores (ps_stage_name stage))
      else if ps_status stage = ''pending'' then title (replace_underscores (ps_stage_name stage))
      else current_stage_of stages)"

definition stage_rows_of :: "string \<Rightarrow> database \<Rightarrow> stage_row list" where
  "stage_rows_of document_id db = filter (\<lambda>r. ps_document_id r = document_id) (processing_stages db)"

text \<open>\<open>None\<close> is the \<^verbatim>\<open>None\<close> the method returns: no such document, or a query raised.\<close>

definition get_document_status :: "string \<Rightarrow> database \<Rightarrow> status_view option \<times> database" where
  "get_document_status document_id db =
     (case execute_query (\<lambda>d. filter (\<lambda>r. doc_id r = document_id) (documents d)) db of
        (None, db1) \<Rightarrow> (None, db1)
      | (Some [], db1) \<Rightarrow> (None, db1)
      | (Some (doc # _), db1) \<Rightarrow>
          (case execute_query (stage_rows_of document_id) db1 of
             (None, db2) \<Rightarrow> (None, db2)
           | (Some stages, db2) \<Rightarrow>
               (Some \<lparr>st_document_id = doc_id doc, st_status = doc_status doc,
                      st_current_stage = current_stage_of stages,
                      st_progress = stage_progress stages,
                      st_stages =
                        (if stages = [] then default_stages
                         else map (\<lambda>s. \<lparr>sv_name = ps_stage_name s, sv_status = ps_status s,
                                         sv_started_at = ps_started_at s,
                                         sv_completed_at = ps_completed_at s,
                                         sv_processing_time_ms = ps_processing_time_ms s,
                                         sv_error_message = ps_error_message s,
                                         sv_metadata = parse_jsonb_field (ps_metadata s)\<rparr>) stages),
                      st_filename = doc_filename doc,
                      st_document_type = doc_document_type doc,
                      st_upload_timestamp = doc_upload_timestamp doc\<rparr>, db2)))"

subsection \<open>Stage outputs: delete, then insert\<close>

text \<open>
  Each \<^verbatim>\<open>save_\<close> method deletes the rows of its key and inserts the new row, as two
  statements; it returns \<^verbatim>\<open>False\<close> when a statement or a \<^verbatim>\<open>json.dumps\<close> raises (the
  arguments of the insert are evaluated after the delete has run).
\<close>

definition save_extraction_result ::
  "string \<Rightarrow> string \<Rightarrow> pyval \<Rightarrow> pyval \<Rightarrow> real \<Rightarrow> int \<Rightarrow> string \<Rightarrow> pyval option
     \<Rightarrow> database \<Rightarrow> bool \<times> database" where
  "save_extraction_result document_id stage raw_data processed_data confidence_score
      processing_time_ms model_used metadata db =
     (let serialized_raw = ensure_serializable raw_data;
          serialized_processed = ensure_serializable processed_data;
          serialized_metadata = ensure_serializable (or_empty_dict metadata)
      in case execute_command
                (\<lambda>d. d\<lparr>extraction_results :=
                        filter (\<lambda>r. \<not> (er_document_id r = document_id \<and> er_stage r = stage))
                          (extraction_results d)\<rparr>) db of
           (False, db1) \<Rightarrow> (False, db1)
         | (True, db1) \<Rightarrow>
             (case (json_dumps serialized_raw, json_dumps serialized_processed,
                    json_dumps serialized_metadata) of
                (Some raw, Some processed, Some meta) \<Rightarrow>
                  execute_command
                    (\<lambda>d. d\<lparr>extraction_results := extraction_results d @
                            [\<lparr>er_document_id = document_id, er_stage = stage, er_raw_data = raw,
                              er_processed_data = processed,
                              er_confidence_score = confidence_score,
                              er_processing_time_ms = processing_time_ms,
                              er_model_used = model_used, er_metadata = meta\<rparr>]\<rparr>) db1
              | _ \<Rightarrow> (False, db1)))"

definition save_quality_score ::
  "string \<Rightarrow> real \<Rightarrow> real \<Rightarrow> real \<Rightarrow> real \<Rightarrow> real \<Rightarrow> string \<Rightarrow> pyval \<Rightarrow> pyval \<Rightarrow> real \<Rightarrow> string
     \<Rightarrow> database \<Rightarrow> bool \<times> database" where
  "save_quality_score document_id overall_score completeness_score accuracy_score compliance_score
      quality_score decision reasoning issues_found confidence judge_model db =
     (case execute_command
             (\<lambda>d. d\<lparr>quality_scores :=
                     filter (\<lambda>r. qs_document_id r \<noteq> document_id) (quality_scores d)\<rparr>) db of
        (False, db1) \<Rightarrow> (False, db1)
      | (True, db1) \<Rightarrow>
          (case (json_dumps reasoning, json_dumps issues_found) of
             (Some reasoning_json, Some issues_json) \<Rightarrow>
               execute_command
                 (\<lambda>d. d\<lparr>quality_scores := quality_scores d @
                         [\<lparr>qs_document_id = document_id, qs_overall_score = overall_score,
                           qs_completeness_score = completeness_score,
                           qs_accuracy_score = accuracy_score,
                           qs_compliance_score = compliance_score,
                           qs_quality_score = quality_score, qs_decision = decision,
                           qs_reasoning = reasoning_json, qs_issues_found = issues_json,
                           qs_confidence = confidence, qs_judge_model = judge_model\<rparr>]\<rparr>) db1
           | _ \<Rightarrow> (False, db1)))"

definition save_routing_decision ::
  "string \<Rightarrow> string \<Rightarrow> string \<Rightarrow> string \<Rightarrow> pyval \<Rightarrow> bool \<Rightarrow> database \<Rightarrow> bool \<times> database" where
  "save_routing_decision document_id routing_action routing_reason wms_integration_status
      wms_integration_data human_review_required db =
     (case execute_command
             (\<lambda>d. d\<lparr>routing_decisions :=
                     filter (\<lambda>r. rd_document_id r \<noteq> document_id) (routing_decisions d)\<rparr>) db of
        (False, db1) \<Rightarrow> (False, db1)
      | (True, db1) \<Rightarrow>
          (case json_dumps wms_integration_data of
             Some data_json \<Rightarrow>
               execute_command
                 (\<lambda>d. d\<lparr>routing_decisions := routing_decisions d @
                         [\<lparr>rd_document_id = document_id, rd_routing_action = routing_action,
                           rd_routing_reason = routing_reason,
                           rd_wms_integration_status = wms_integration_status,
                           rd_wms_integration_data = data_json,
                           rd_human_review_required = human_review_required\<rparr>]\<rparr>) db1
           | None \<Rightarrow> (False, db1)))"

record extraction_view =
  ev_raw_data :: pyval
  ev_processed_data :: pyval
  ev_confidence_score :: real
  ev_processing_time_ms :: int
  ev_model_used :: string
  ev_metadata :: pyval

record quality_view =
  qv_overall_score :: real
  qv_completeness_score :: real
  qv_accuracy_score :: real
  qv_compliance_score :: real
  qv_quality_score :: real
  qv_decision :: string
  qv_reasoning :: pyval
  qv_issues_found :: pyval
  qv_confidence :: real
  qv_judge_model :: string

record routing_view =
  ro_routing_action :: string
  ro_routing_reason :: string
  ro_wms_integration_status :: string
  ro_wms_integration_data :: pyval
  ro_human_review_required :: bool

record results_view =
  rv_extraction_results :: "(string \<times> extraction_view) list"
  rv_quality_score :: "quality_view option"
  rv_routing_decision :: "routing_view option"

definition extraction_view_of :: "extraction_row \<Rightarrow> extraction_view" where
  "extraction_view_of r =
     \<lparr>ev_raw_data = parse_jsonb_field (er_raw_data r),
      ev_processed_data = parse_jsonb_field (er_processed_data r),
      ev_confidence_score = er_confidence_score r,
      ev_processing_time_ms = er_processing_time_ms r,
      ev_model_used = er_model_used r,
      ev_metadata = parse_jsonb_field (er_metadata r)\<rparr>"

definition quality_view_of :: "quality_row \<Rightarrow> quality_view" where
  "quality_view_of q =
     \<lparr>qv_overall_score = qs_overall_score q, qv_completeness_score = qs_completeness_score q,
      qv_accuracy_score = qs_accuracy_score q, qv_compliance_score = qs_compliance_score q,
      qv_quality_score = qs_quality_score q, qv_decision = qs_decision q,
      qv_reasoning = parse_jsonb_field (qs_reasoning q),
      qv_issues_found = parse_jsonb_field (qs_issues_found q),
      qv_confidence = qs_confidence q, qv_judge_model = qs_judge_model q\<rparr>"

definition routing_view_of :: "routing_row \<Rightarrow> routing_view" where
  "routing_view_of r =
     \<lparr>ro_routing_action = rd_routing_action r, ro_routing_reason = rd_routing_reason r,
      ro_wms_integration_status = rd_wms_integration_status r,
      ro_wms_integration_data = parse_jsonb_field (rd_wms_integration_data r),
      ro_human_review_required = rd_human_review_required r\<rparr>"

text \<open>
  The loop \<^verbatim>\<open>for r in results: extraction_results[r["stage"]] = {...}\<close>: a later row of
  a stage overwrites an earlier one.
\<close>

definition extraction_dict :: "extraction_row list \<Rightarrow> (string \<times> extraction_view) list" where
  "extraction_dict results =
     foldl (\<lambda>acc r. dict_set (er_stage r) (extraction_view_of r) acc) [] results"

text \<open>\<open>None\<close> is the empty dictionary the method returns when a query raises.\<close>

definition get_extraction_results :: "string \<Rightarrow> database \<Rightarrow> results_view option \<times> database" where
  "get_extraction_results document_id db =
     (case execute_query (\<lambda>d. filter (\<lambda>r. er_document_id r = document_id) (extraction_results d)) db of
        (None, db1) \<Rightarrow> (None, db1)
      | (Some results, db1) \<Rightarrow>
          (case execute_query (\<lambda>d. filter (\<lambda>r. qs_document_id r = document_id) (quality_scores d)) db1 of
             (None, db2) \<Rightarrow> (None, db2)
           | (Some quality_results, db2) \<Rightarrow>
               (case execute_query
                       (\<lambda>d. filter (\<lambda>r. rd_document_id r = document_id) (routing_decisions d)) db2 of
                  (None, db3) \<Rightarrow> (None, db3)
                | (Some routing_results, db3) \<Rightarrow>
                    (Some \<lparr>rv_extraction_results = extraction_dict results,
                           rv_quality_score =
                             (case quality_results of [] \<Rightarrow> None
                              | q # _ \<Rightarrow> Some (quality_view_of q)),
                           rv_routing_decision =
                             (case routing_results of [] \<Rightarrow> None
                              | r # _ \<Rightarrow> Some (routing_view_of r))\<rparr>, db3))))"

text \<open>
  A document id as the service issues them (\<^verbatim>\<open>str(uuid.uuid4())\<close>), for the examples.
\<close>

definition example_document_id :: string where
  "example_document_id = ''3f2b8c1e-5d4a-4e6f-9a7b-0c1d2e3f4a5b''"

text \<open>
  A database with no rows, whose statements do not raise.
\<close>

definition empty_database :: database where
  "empty_database =
     \<lparr>documents = [], processing_stages = [], extraction_results = [], quality_scores = [],
      routing_decisions = [], db_clock = 0, db_faults = []\<rparr>"

section \<open>Stage orchestrator (\<^verbatim>\<open>routers/document.py\<close>)\<close>

subsection \<open>The tools object and its status stores\<close>

text \<open>
  The orchestrator writes statuses through a \<^verbatim>\<open>DocumentActionTools\<close> object: to the
  database service when \<^verbatim>\<open>tools.use_database and tools.db_service\<close>, and to the in-memory
  dictionary \<^verbatim>\<open>tools.document_statuses\<close> when the document has an entry there.
\<close>

record mem_stage =
  ms_name :: string
  ms_status :: string
  ms_completed_at :: "nat option"

record mem_status =
  m_status :: string
  m_current_stage :: string
  m_progress :: int
  m_stages :: "mem_stage list option"
  m_error_message :: "string option"

record tools =
  use_database :: bool
  db_service :: "database option"
  document_statuses :: "(string \<times> mem_status) list"

definition database_active :: "tools \<Rightarrow> bool" where
  "database_active t = (use_database t \<and> db_service t \<noteq> None)"

text \<open>
  What the orchestrator asks of the stores, call by call, for the document of the run. A run
  is the list of these calls in the order they are made; \<open>exec_call\<close> carries one out.
  (\<open>DB_create_processing_stage\<close> is the service's \<^verbatim>\<open>create_processing_stage\<close>, which the
  orchestrator never calls.)
\<close>

datatype store_call =
    DB_create_processing_stage string string
  | DB_update_processing_stage string string "string option"
  | DB_update_document_status string "string option"
  | Mem_set_processing string string int
  | Mem_stage_completion string string int
  | Tools_update_document_status string string
  | Tools_store_processing_results

definition with_db :: "(database \<Rightarrow> bool \<times> database) \<Rightarrow> tools \<Rightarrow> tools" where
  "with_db f t =
     (case db_service t of
        None \<Rightarrow> t
      | Some db \<Rightarrow> if use_database t then t\<lparr>db_service := Some (snd (f db))\<rparr> else t)"

definition with_mem :: "string \<Rightarrow> (mem_status \<Rightarrow> mem_status) \<Rightarrow> tools \<Rightarrow> tools" where
  "with_mem document_id f t =
     (case dict_get (document_statuses t) document_id of
        None \<Rightarrow> t
      | Some m \<Rightarrow> t\<lparr>document_statuses := dict_set document_id (f m) (document_statuses t)\<rparr>)"

text \<open>
  Modelled from the spec: \<^verbatim>\<open>tools._update_document_status(document_id, status, error)\<close>
  is not part of the sources at hand. The specification has a failure mark ``the Document
  \<^verbatim>\<open>failed\<close> with a sanitized error message'', in the durable store and in its in-memory
  mirror.
\<close>

definition tools_update_document_status :: "string \<Rightarrow> string \<Rightarrow> string \<Rightarrow> tools \<Rightarrow> tools" where
  "tools_update_document_status document_id status error_message t =
     with_mem document_id (\<lambda>m. m\<lparr>m_status := status, m_error_message := Some error_message\<rparr>)
       (with_db (update_document_status document_id status None) t)"

text \<open>
  Modelled from the spec: \<^verbatim>\<open>tools._store_processing_results(...)\<close> is not part of the
  sources at hand. The specification has it ``persist all stage outputs, mark the Document
  \<^verbatim>\<open>COMPLETED\<close>'' with progress 100 (the caller's comment: ``this will also set status to
  COMPLETED''); only the status it sets is modelled.
\<close>

definition tools_store_processing_results :: "string \<Rightarrow> tools \<Rightarrow> tools" where
  "tools_store_processing_results document_id t =
     with_mem document_id
       (\<lambda>m. m\<lparr>m_status := ''completed'', m_current_stage := ''Completed'', m_progress := 100\<rparr>)
       (with_db (update_document_status document_id ''completed'' (Some ''completed'')) t)"

fun exec_call :: "string \<Rightarrow> nat \<Rightarrow> store_call \<Rightarrow> tools \<Rightarrow> tools" where
  "exec_call document_id now (DB_create_processing_stage stage_name status) t =
     with_db (create_processing_stage document_id stage_name status None) t"
| "exec_call document_id now (DB_update_processing_stage stage_name status error_message) t =
     with_db (update_processing_stage document_id stage_name status error_message None None) t"
| "exec_call document_id now (DB_update_document_status status processing_stage) t =
     with_db (update_document_status document_id status processing_stage) t"
| "exec_call document_id now (Mem_set_processing status current_stage progress) t =
     with_mem document_id
       (\<lambda>m. m\<lparr>m_status := status, m_current_stage := current_stage, m_progress := progress\<rparr>) t"
| "exec_call document_id now (Mem_stage_completion stage_name current_stage progress) t =
     with_mem document_id
       (\<lambda>m. m\<lparr>m_current_stage := current_stage, m_progress := progress,
               m_stages :=
                 map_option
                   (map (\<lambda>stage. if ms_name stage = stage_name
                                  then stage\<lparr>ms_status := ''completed'', ms_completed_at := Some now\<rparr>
                                  else stage))
                   (m_stages m)\<rparr>) t"
| "exec_call document_id now (Tools_update_document_status status error_message) t =
     tools_update_document_status document_id status error_message t"
| "exec_call document_id now Tools_store_processing_results t =
     tools_store_processing_results document_id t"

fun run_calls :: "string \<Rightarrow> nat \<Rightarrow> tools \<Rightarrow> store_call list \<Rightarrow> tools" where
  "run_calls document_id now t [] = t"
| "run_calls document_id now t (c # cs) =
     run_calls document_id (Suc now) (exec_call document_id now c t) cs"

subsection \<open>One stage\<close>

text \<open>
  \<^verbatim>\<open>_update_stage_completion\<close>: the stage record becomes \<^verbatim>\<open>completed\<close> and the document's
  status becomes the name of the stage just completed; then the in-memory entry is advanced.
\<close>

definition update_stage_completion ::
  "tools \<Rightarrow> string \<Rightarrow> string \<Rightarrow> string \<Rightarrow> int \<Rightarrow> store_call list" where
  "update_stage_completion t document_id stage_name current_stage progress =
     (if database_active t
      then [DB_update_processing_stage stage_name ''completed'' None,
            DB_update_document_status stage_name (Some stage_name)]
      else [])
     @ (if dict_get (document_statuses t) document_id \<noteq> None
        then [Mem_stage_completion stage_name current_stage progress]
        else [])"

text \<open>
  \<^verbatim>\<open>_handle_stage_error\<close>. The message is \<^verbatim>\<open>sanitize_error_message(error, stage_name)\<close>, a
  function of \<^verbatim>\<open>src.api.utils.error_handler\<close>, here the parameter \<open>sanitize_error_message\<close>.
\<close>

definition handle_stage_error ::
  "(('e, 'r) outcome \<Rightarrow> string \<Rightarrow> string) \<Rightarrow> string \<Rightarrow> ('e, 'r) outcome \<Rightarrow> store_call list" where
  "handle_stage_error sanitize_error_message stage_name error =
     [Tools_update_document_status ''failed'' (sanitize_error_message error stage_name)]"

text \<open>
  \<^verbatim>\<open>_execute_processing_stage\<close>: the calls it makes, and what it returns or re-raises.
\<close>

definition execute_processing_stage ::
  "('e \<Rightarrow> exc_type \<Rightarrow> bool) \<Rightarrow> (('e, 'r) outcome \<Rightarrow> string \<Rightarrow> string) \<Rightarrow> tools \<Rightarrow> string
     \<Rightarrow> string \<Rightarrow> string \<Rightarrow> int \<Rightarrow> (nat \<Rightarrow> 'e + 'r) \<Rightarrow> store_call list \<times> ('e, 'r) outcome" where
  "execute_processing_stage isinstance sanitize_error_message t document_id stage_name next_stage
      progress processor_func =
     (let mark_processing =
            (if database_active t then [DB_update_processing_stage stage_name ''processing'' None]
             else []);
          retry_config = RetryConfig_init 3 1 30 2 None
      in case fst (retry_with_backoff isinstance processor_func (Some retry_config)) of
           Returned result \<Rightarrow>
             (mark_processing
                @ update_stage_completion t document_id stage_name next_stage progress,
              Returned result)
         | failure \<Rightarrow>
             (mark_processing @ handle_stage_error sanitize_error_message stage_name failure,
              failure))"

subsection \<open>The pipeline run\<close>

text \<open>
  What a run depends on: whether the file exists, the five stage processors (each a function
  of its inputs and of the attempt number), the default results, whether storing the results
  raises, and \<^verbatim>\<open>str\<close> of an exception.
\<close>

record ('e, 'r) pipeline =
  file_exists :: bool
  file_not_found :: 'e
  preprocess :: "nat \<Rightarrow> 'e + 'r"
  extract_text :: "'r \<Rightarrow> nat \<Rightarrow> 'e + 'r"
  llm_process :: "'r \<Rightarrow> 'r \<Rightarrow> nat \<Rightarrow> 'e + 'r"
  evaluate_document :: "'r \<Rightarrow> nat \<Rightarrow> 'e + 'r"
  route_document :: "'r \<Rightarrow> 'r \<Rightarrow> nat \<Rightarrow> 'e + 'r"
  default_validation :: 'r
  default_routing :: 'r
  store_raises :: "'e option"
  error_text :: "('e, 'r) outcome \<Rightarrow> string"

text \<open>The outer \<^verbatim>\<open>except Exception\<close> of \<^verbatim>\<open>process_document_background\<close>.\<close>

definition outer_handler ::
  "(('e, 'r) outcome \<Rightarrow> string \<Rightarrow> string) \<Rightarrow> ('e, 'r) outcome \<Rightarrow> store_call list" where
  "outer_handler sanitize_error_message e =
     [Tools_update_document_status ''failed'' (sanitize_error_message e ''NVIDIA NeMo processing'')]"

text \<open>The \<^verbatim>\<open>except\<close> branch of a best-effort stage marks the stage record \<^verbatim>\<open>failed\<close>.\<close>

definition best_effort_failed :: "tools \<Rightarrow> string \<Rightarrow> string \<Rightarrow> store_call list" where
  "best_effort_failed t stage_name error_string =
     (if database_active t
      then [DB_update_processing_stage stage_name ''failed'' (Some (take 500 error_string))]
      else [])"

definition process_document_background ::
  "('e \<Rightarrow> exc_type \<Rightarrow> bool) \<Rightarrow> (('e, 'r) outcome \<Rightarrow> string \<Rightarrow> string) \<Rightarrow> tools \<Rightarrow> string
     \<Rightarrow> ('e, 'r) pipeline \<Rightarrow> store_call list" where
  "process_document_background isinstance sanitize_error_message t document_id p =
     (if \<not> file_exists p then outer_handler sanitize_error_message (Raised (file_not_found p))
      else
        (let started =
               (if dict_get (document_statuses t) document_id \<noteq> None
                then [Mem_set_processing ''preprocessing'' ''Preprocessing'' 10] else []);
             stage = execute_processing_stage isinstance sanitize_error_message t document_id
         in case stage ''preprocessing'' ''OCR Extraction'' 20 (preprocess p) of
              (c1, Returned preprocessing_result) \<Rightarrow>
                (case stage ''ocr_extraction'' ''LLM Processing'' 40
                        (extract_text p preprocessing_result) of
                   (c2, Returned ocr_result) \<Rightarrow>
                     (case stage ''llm_processing'' ''Validation'' 60
                             (llm_process p preprocessing_result ocr_result) of
                        (c3, Returned llm_result) \<Rightarrow>
                          (let (c4, validation_result) =
                                 (case stage ''validation'' ''Routing'' 80
                                         (evaluate_document p llm_result) of
                                    (c, Returned r) \<Rightarrow> (c, r)
                                  | (c, validation_error) \<Rightarrow>
                                      (c @ best_effort_failed t ''validation''
                                             (error_text p validation_error),
                                       default_validation p));
                               (c5, routing_result) =
                                 (case stage ''routing'' ''Finalizing'' 90
                                         (route_document p llm_result validation_result) of
                                    (c, Returned r) \<Rightarrow> (c, r)
                                  | (c, routing_error) \<Rightarrow>
                                      (c @ best_effort_failed t ''routing''
                                             (error_text p routing_error),
                                       default_routing p))
                           in started @ c1 @ c2 @ c3 @ c4 @ c5
                                @ (case store_raises p of
                                     None \<Rightarrow> [Tools_store_processing_results]
                                   | Some e \<Rightarrow> outer_handler sanitize_error_message (Raised e)))
                      | (c3, e) \<Rightarrow> started @ c1 @ c2 @ c3 @ outer_handler sanitize_error_message e)
                 | (c2, e) \<Rightarrow> started @ c1 @ c2 @ outer_handler sanitize_error_message e)
            | (c1, e) \<Rightarrow> started @ c1 @ outer_handler sanitize_error_message e))"

subsection \<open>Stating the orchestrator's properties\<close>

text \<open>
  The status a call writes as the document's overall status, if it writes one, and the
  statuses a run writes, in order. \<open>failed_absorbing\<close>: after a write of \<^verbatim>\<open>failed\<close> every
  later write is \<^verbatim>\<open>failed\<close>.
\<close>

fun status_written :: "store_call \<Rightarrow> string option" where
  "status_written (DB_update_document_status status processing_stage) = Some status"
| "status_written (Mem_set_processing status current_stage progress) = Some status"
| "status_written (Tools_update_document_status status error_message) = Some status"
| "status_written Tools_store_processing_results = Some ''completed''"
| "status_written (DB_create_processing_stage stage_name status) = None"
| "status_written (DB_update_processing_stage stage_name status error_message) = None"
| "status_written (Mem_stage_completion stage_name current_stage progress) = None"

definition status_writes :: "store_call list \<Rightarrow> string list" where
  "status_writes calls = List.map_filter status_written calls"

fun failed_absorbing :: "string list \<Rightarrow> bool" where
  "failed_absorbing [] = True"
| "failed_absorbing (w # ws) =
     ((if w = ''failed'' then list_all (\<lambda>v. v = ''failed'') ws else True) \<and> failed_absorbing ws)"

text \<open>
  What a stage ends with, and the runs in which a best-effort stage (validation or routing)
  fails: the file exists, the three critical stages return, and validation or routing does
  not.
\<close>

definition stage_result :: "('e \<Rightarrow> exc_type \<Rightarrow> bool) \<Rightarrow> (nat \<Rightarrow> 'e + 'r) \<Rightarrow> ('e, 'r) outcome" where
  "stage_result isinstance processor_func =
     fst (retry_with_backoff isinstance processor_func (Some (RetryConfig_init 3 1 30 2 None)))"

definition succeeded :: "('e, 'r) outcome \<Rightarrow> bool" where
  "succeeded x = (case x of Returned r \<Rightarrow> True | _ \<Rightarrow> False)"

definition best_effort_failure :: "('e \<Rightarrow> exc_type \<Rightarrow> bool) \<Rightarrow> ('e, 'r) pipeline \<Rightarrow> bool" where
  "best_effort_failure isinstance p =
     (file_exists p \<and>
      (case stage_result isinstance (preprocess p) of
         Returned preprocessing_result \<Rightarrow>
           (case stage_result isinstance (extract_text p preprocessing_result) of
              Returned ocr_result \<Rightarrow>
                (case stage_result isinstance (llm_process p preprocessing_result ocr_result) of
                   Returned llm_result \<Rightarrow>
                     (case stage_result isinstance (evaluate_document p llm_result) of
                        Returned validation_result \<Rightarrow>
                          \<not> succeeded (stage_result isinstance
                                         (route_document p llm_result validation_result))
                      | _ \<Rightarrow> True)
                 | _ \<Rightarrow> False)
            | _ \<Rightarrow> False)
       | _ \<Rightarrow> False))"

text \<open>
  The progress a status query reports is \<open>stage_progress\<close> of the document's stage records;
  \<open>progress_trace\<close> lists it before the first call of a run and after each call.
\<close>

definition progress_of :: "string \<Rightarrow> tools \<Rightarrow> int" where
  "progress_of document_id t =
     (case db_service t of None \<Rightarrow> 0 | Some db \<Rightarrow> stage_progress (stage_rows_of document_id db))"

fun progress_trace :: "string \<Rightarrow> nat \<Rightarrow> tools \<Rightarrow> store_call list \<Rightarrow> int list" where
  "progress_trace document_id now t [] = [progress_of document_id t]"
| "progress_trace document_id now t (c # cs) =
     progress_of document_id t
       # progress_trace document_id (Suc now) (exec_call document_id now c t) cs"

text \<open>
  Modelled from the spec: the stage-record writes of a run when, as the specification has
  it, a stage's record is ``created lazily the first time a stage begins; updated in place
  thereafter'': one \<^verbatim>\<open>create_processing_stage\<close> with status \<^verbatim>\<open>processing\<close> when the stage
  begins, one \<^verbatim>\<open>update_processing_stage\<close> when it ends, for each stage with its outcome.
\<close>

definition lazy_stage_writes :: "(string \<times> bool) list \<Rightarrow> store_call list" where
  "lazy_stage_writes outcomes =
     concat (map (\<lambda>(stage_name, ok).
                    [DB_create_processing_stage stage_name ''processing'',
                     DB_update_processing_stage stage_name (if ok then ''completed'' else ''failed'') None])
               outcomes)"

text \<open>
  \<open>updates_in_place finished calls\<close>: the calls create no stage record, and no stage in
  \<open>finished\<close> or completed earlier in \<open>calls\<close> is given another status afterwards.
  \<open>completed_within finished document_id t\<close>: the completed stage records of the document
  are among the stages \<open>finished\<close>.
\<close>

fun updates_in_place :: "string list \<Rightarrow> store_call list \<Rightarrow> bool" where
  "updates_in_place finished [] = True"
| "updates_in_place finished (DB_create_processing_stage stage_name status # calls) = False"
| "updates_in_place finished (DB_update_processing_stage stage_name status error_message # calls) =
     (if status = ''completed'' then updates_in_place (stage_name # finished) calls
      else stage_name \<notin> set finished \<and> updates_in_place finished calls)"
| "updates_in_place finished (c # calls) = updates_in_place finished calls"

definition completed_within :: "string list \<Rightarrow> string \<Rightarrow> tools \<Rightarrow> bool" where
  "completed_within finished document_id t =
     (case db_service t of
        None \<Rightarrow> True
      | Some db \<Rightarrow>
          list_all (\<lambda>r. ps_status r = ''completed'' \<longrightarrow> ps_stage_name r \<in> set finished)
            (stage_rows_of document_id db))"

subsection \<open>An example run\<close>

text \<open>
  The run of the specification's end-to-end scenario: validation times out on every attempt,
  the other stages return. \<open>example_tools\<close> has the database, with the document's row and
  its five stage records pending, and an in-memory entry for the document.
\<close>

definition validation_times_out :: "(exc_type, string) pipeline" where
  "validation_times_out =
     \<lparr>file_exists = True, file_not_found = OtherExceptionType ''FileNotFoundError'',
      preprocess = (\<lambda>k. Inr ''images''),
      extract_text = (\<lambda>preprocessing_result k. Inr ''text''),
      llm_process = (\<lambda>preprocessing_result ocr_result k. Inr ''fields''),
      evaluate_document = (\<lambda>llm_result k. Inl TimeoutError),
      route_document = (\<lambda>llm_result validation_result k. Inr ''approve_auto''),
      default_validation = ''REVIEW_REQUIRED'', default_routing = ''flag_review'',
      store_raises = None, error_text = (\<lambda>e. ''timed out'')\<rparr>"

definition ocr_fails :: "(exc_type, string) pipeline" where
  "ocr_fails = validation_times_out
     \<lparr>extract_text := (\<lambda>preprocessing_result k. Inl (OtherExceptionType ''ValueError'')),
      evaluate_document := (\<lambda>llm_result k. Inr ''APPROVE'')\<rparr>"

definition example_database :: database where
  "example_database =
     empty_database
       \<lparr>documents :=
          [\<lparr>doc_id = example_document_id, doc_filename = ''invoice.pdf'', doc_status = ''uploaded'',
            doc_processing_stage = ''uploaded'', doc_document_type = ''invoice'',
            doc_upload_timestamp = 0\<rparr>],
        processing_stages :=
          map (\<lambda>n. \<lparr>ps_document_id = example_document_id, ps_stage_name = n, ps_status = ''pending'',
                     ps_started_at = None, ps_completed_at = None, ps_error_message = None,
                     ps_processing_time_ms = None, ps_metadata = PyDict []\<rparr>)
            [''preprocessing'', ''ocr_extraction'', ''llm_processing'', ''validation'', ''routing'']\<rparr>"

definition example_tools :: tools where
  "example_tools =
     \<lparr>use_database = True, db_service = Some example_database,
      document_statuses =
        [(example_document_id, \<lparr>m_status = ''uploaded'', m_current_stage = ''Uploaded'', m_progress = 0,
                   m_stages = None, m_error_message = None\<rparr>)]\<rparr>"

definition sanitized :: "(exc_type, string) outcome \<Rightarrow> string \<Rightarrow> string" where
  "sanitized e operation = operation @ '' failed''"

text \<open>The stages finished when \<open>calls\<close> have been made, \<open>finished\<close> having been so before.\<close>

fun finished_after :: "string list \<Rightarrow> store_call list \<Rightarrow> string list" where
  "finished_after finished [] = finished"
| "finished_after finished (DB_update_processing_stage stage_name status error_message # calls) =
     (if status = ''completed'' then finished_after (stage_name # finished) calls
      else finished_after finished calls)"
| "finished_after finished (c # calls) = finished_after finished calls"

text \<open>The tools of the example before any stage record of the document exists.\<close>

definition unstarted_tools :: tools where
  "unstarted_tools = example_tools\<lparr>db_service := Some (example_database\<lparr>processing_stages := []\<rparr>)\<rparr>"

chapter \<open>Theorems\<close>

section \<open>Retry executor\<close>

text \<open>
  Three facts about the loop started at attempt \<open>i\<close> with delay \<open>d\<close>: what it returns when
  attempt \<open>i + n\<close> is the first that does not fail with a retryable exception; what it
  returns when every attempt up to the last fails with one; and the shape of its events
  whatever the operation does.
\<close>

lemma upto_int_Cons: "int i \<le> m \<Longrightarrow> [int i..m] = int i # [int (Suc i)..m]"
  by (subst upto_rec1) (simp_all add: add.commute)

lemma retry_loop_decisive:
  assumes "int i + int n \<le> max_retries c"
    and "\<forall>j < n. retryable_failure isinstance c (func (i + j))"
    and "\<not> retryable_failure isinstance c (func (i + n))"
  shows "retry_loop isinstance func c [int i..max_retries c] d le =
           (outcome_of (func (i + n)), backoff_events c d n)"
  using assms
proof (induction n arbitrary: i d le)
  case 0
  then show ?case
    by (auto simp: upto_int_Cons retryable_failure_def outcome_of_def split: sum.splits)
next
  case (Suc n)
  from Suc.prems have r0: "retryable_failure isinstance c (func i)" by force
  have step: "retry_loop isinstance func c [int (Suc i)..max_retries c] (next_delay c d) (Some e') =
           (outcome_of (func (Suc i + n)), backoff_events c (next_delay c d) n)" for e'
    using Suc.prems by (intro Suc.IH) auto
  have lt: "int i < max_retries c" "int i \<le> max_retries c" using Suc.prems by simp_all
  show ?case
    using r0 lt step
    by (auto simp: upto_int_Cons retryable_failure_def next_delay_def split: sum.splits)
qed

lemma retry_loop_exhausted:
  assumes "max_retries c = int i + int n"
    and "\<forall>j \<le> n. retryable_failure isinstance c (func (i + j))"
  shows "retry_loop isinstance func c [int i..max_retries c] d le =
           (outcome_of (func (i + n)), backoff_events c d n)"
  using assms
proof (induction n arbitrary: i d le)
  case 0
  then have "[int i..max_retries c] = [int i]" by (simp add: upto_int_Cons)
  with 0 show ?case
    by (auto simp: retryable_failure_def outcome_of_def split: sum.splits)
next
  case (Suc n)
  from Suc.prems have r0: "retryable_failure isinstance c (func i)" by force
  have step: "retry_loop isinstance func c [int (Suc i)..max_retries c] (next_delay c d) (Some e') =
           (outcome_of (func (Suc i + n)), backoff_events c (next_delay c d) n)" for e'
    using Suc.prems by (intro Suc.IH) auto
  have lt: "int i < max_retries c" "int i \<le> max_retries c" using Suc.prems by simp_all
  show ?case
    using r0 lt step
    by (auto simp: upto_int_Cons retryable_failure_def next_delay_def split: sum.splits)
qed














section \<open>Circuit breaker\<close>

text \<open>
  A breaker that is open or half-open has reached its threshold: it opens only then, and
  \<open>failure_count\<close> is reset only when it closes.
\<close>

lemma reachable_tripped:
  "reachable s \<Longrightarrow> state s = ''open'' \<or> state s = ''half_open'' \<Longrightarrow> failure_threshold s \<le> failure_count s"
proof (induction rule: reachable.induct)
  case (init ft rt hm)
  then show ?case by (simp add: CircuitBreaker_init_def)
next
  case (step s now func_result now_fail)
  then show ?case
    by (auto simp: call_def check_circuit_def on_success_def on_failure_def Let_def
             split: sum.splits option.splits if_splits)
qed

text \<open>
  \<^bold>\<open>Claim C5.\<close> In every reachable state of a breaker with \<open>state = half_open\<close>: a
  successful call increments the half-open success counter and, when the counter reaches
  \<open>half_open_max_calls\<close>, returns the state to \<open>closed\<close> with \<open>failure_count\<close> (and
  the counter) reset to 0; a failing call returns the breaker to \<open>open\<close> and sets the
  open-timestamp \<open>last_failure_time\<close> to the time of the failure.
\<close>

theorem half_open_transitions:
  assumes "reachable s" and "state s = ''half_open''"
  shows "call s now (Inr r) now_fail =
           (CallReturned r,
            if half_open_max_calls s \<le> half_open_calls s + 1
            then s\<lparr>half_open_calls := 0, state := ''closed'', failure_count := 0\<rparr>
            else s\<lparr>half_open_calls := half_open_calls s + 1\<rparr>)
       \<and> call s now' (Inl e) now_fail' =
           (CallRaised e,
            s\<lparr>failure_count := failure_count s + 1, last_failure_time := Some now_fail',
              state := ''open''\<rparr>)"
proof -
  from assms have thr: "failure_threshold s \<le> failure_count s" by (simp add: reachable_tripped)
  have "call s now (Inr r) now_fail =
           (CallReturned r,
            if half_open_max_calls s \<le> half_open_calls s + 1
            then s\<lparr>half_open_calls := 0, state := ''closed'', failure_count := 0\<rparr>
            else s\<lparr>half_open_calls := half_open_calls s + 1\<rparr>)"
    using assms(2) by (simp add: call_def check_circuit_def on_success_def Let_def)
  moreover have "call s now' (Inl e) now_fail' =
           (CallRaised e,
            s\<lparr>failure_count := failure_count s + 1, last_failure_time := Some now_fail',
              state := ''open''\<rparr>)"
    using assms(2) thr by (simp add: call_def check_circuit_def on_failure_def Let_def)
  ultimately show ?thesis by simp
qed

text \<open>
  A witness: a breaker with threshold 1, timeout 60 and three trial calls fails at time 100
  (it opens), and is called with success at time 200 (it half-opens and counts one trial).
  In that state a success counts the second trial, and a failure at time 250 re-opens the
  breaker.
\<close>

theorem half_open_transitions_witness:
  "(let s = \<lparr>failure_threshold = 1, recovery_timeout = 60, half_open_max_calls = 3,
             failure_count = 1, last_failure_time = Some 100, state = ''half_open'',
             half_open_calls = 1\<rparr>
    in reachable s \<and> state s = ''half_open''
     \<and> call s 210 (Inr ()) 0 = (CallReturned () :: (unit, unit) call_outcome, s\<lparr>half_open_calls := 2\<rparr>)
     \<and> call s 240 (Inl ()) 250 =
          (CallRaised () :: (unit, unit) call_outcome,
           s\<lparr>failure_count := 2, last_failure_time := Some 250, state := ''open''\<rparr>))"
proof -
  define s where "s = \<lparr>failure_threshold = 1, recovery_timeout = 60, half_open_max_calls = 3,
             failure_count = 1, last_failure_time = Some 100, state = ''half_open'',
             half_open_calls = 1\<rparr>"
  have "reachable (snd (call (snd (call (CircuitBreaker_init 1 60 3) 100 (Inl () :: unit + unit) 100))
                          200 (Inr () :: unit + unit) 0))"
    by (rule reachable.step, rule reachable.step, rule reachable.init)
  moreover have "snd (call (snd (call (CircuitBreaker_init 1 60 3) 100 (Inl () :: unit + unit) 100))
                          200 (Inr () :: unit + unit) 0) = s"
    by (simp add: call_def check_circuit_def on_success_def on_failure_def CircuitBreaker_init_def
        s_def Let_def)
  ultimately have r: "reachable s" by simp
  have h: "state s = ''half_open''" by (simp add: s_def)
  have "call s 210 (Inr ()) 0 = (CallReturned () :: (unit, unit) call_outcome, s\<lparr>half_open_calls := 2\<rparr>)
     \<and> call s 240 (Inl ()) 250 =
          (CallRaised () :: (unit, unit) call_outcome,
           s\<lparr>failure_count := 2, last_failure_time := Some 250, state := ''open''\<rparr>)"
    using half_open_transitions[OF r h, of 210 "()" 0 240 "()" 250] by (simp add: s_def)
  with r h show ?thesis unfolding Let_def s_def[symmetric] by simp
qed

section \<open>Job queue\<close>

subsection \<open>The retry bound is an invariant\<close>



lemma dict_get_set [simp]: "dict_get (dict_set k v kvs) k = Some v"
  by (induction kvs) auto



























subsection \<open>Four retries of one job\<close>



lemma quiet_updates [simp]:
  "quiet s \<Longrightarrow> quiet (s\<lparr>redis_client := (redis_client s)\<lparr>store := st\<rparr>\<rparr>)"
  "quiet s \<Longrightarrow> quiet (s\<lparr>redis_client := (redis_client s)\<lparr>queue := qu\<rparr>\<rparr>)"
  "quiet s \<Longrightarrow> quiet (fallback_store k j s)"
  "quiet s \<Longrightarrow> quiet (mutate a k j s)"
  by (simp_all add: quiet_def fallback_store_def mutate_def)



lemma available_updates [simp]:
  "redis_available (fallback_store k j s) = redis_available s"
  "redis_available (mutate a k j s) = redis_available s"
  by (simp_all add: fallback_store_def mutate_def)







subsection \<open>Where the code departs from its contract\<close>

text \<open>
  \<^bold>\<open>Claim C3\<close> (\<^verbatim>\<open>retry_job\<close> re-marks the job \<open>PENDING\<close> at slightly lower priority,
  identically on both backends) does not hold of the code. On the in-memory backend a
  retried job is stored with status \<open>RETRYING\<close> and its priority unchanged; on Redis it is
  stored with status \<open>RETRYING\<close> and re-added to the sorted set one below its priority. On
  both, \<^verbatim>\<open>dequeue_job\<close> returns only \<open>PENDING\<close> jobs, so the retried job is never
  handed out again: the next \<^verbatim>\<open>dequeue_job\<close> returns nothing.
\<close>

theorem retry_job_marks_retrying:
  "(let self = \<lparr>redis_client = \<lparr>store = [], queue = [], faults = []\<rparr>, redis_available = False,
                 fallback_queue = [(''J'', example_job ''J'' PROCESSING 0)]\<rparr>;
        (b, s1) = retry_job ''J'' ''t1'' self
    in b = True
     \<and> dict_get (fallback_queue s1) ''J'' =
          Some ((example_job ''J'' RETRYING 0)\<lparr>job_retry_count := 1, job_updated_at := ''t1''\<rparr>)
     \<and> fst (dequeue_job ''t2'' s1) = None)
   \<and> (let self = \<lparr>redis_client = \<lparr>store = [(''J'', example_job ''J'' PROCESSING 0)], queue = [], faults = []\<rparr>,
                  redis_available = True, fallback_queue = []\<rparr>;
        (b, s1) = retry_job ''J'' ''t1'' self
    in b = True
     \<and> dict_get (store (redis_client s1)) ''J'' =
          Some ((example_job ''J'' RETRYING 0)\<lparr>job_retry_count := 1, job_updated_at := ''t1''\<rparr>)
     \<and> queue (redis_client s1) = [(''J'', - 1)]
     \<and> fst (dequeue_job ''t2'' s1) = None)"
  by (simp add: retry_job_def get_job_def fallback_get_def mutate_def fallback_store_def
      example_job_def dequeue_job_def dequeue_fallback_def redis_cmd_def redis_get_def
      redis_setex_def redis_zadd_def redis_zrevrange_0_0_def raises_def Let_def)

text \<open>
  \<^bold>\<open>Claim C4\<close> (\<^verbatim>\<open>dequeue_job\<close> returns none exactly when no \<open>PENDING\<close> job exists)
  does not hold of the Redis path. It looks at the top of the sorted set only: when that
  job is not pending, it falls through to the in-memory loop instead of going on to the
  next member, as the in-memory loop itself does. Here job A (priority 5) is cancelled while
  queued, and the pending job B (priority 1) is not handed out.
\<close>

theorem dequeue_blocked_by_cancelled:
  "(let s0 = initialize True [] (JobQueue_init :: unit JobQueue);
        (a, s1) = enqueue_job ''A'' ''t1'' ''process_document'' () 5 3 s0;
        (b, s2) = enqueue_job ''B'' ''t2'' ''process_document'' () 1 3 s1;
        (ok, s3) = update_job_status ''A'' CANCELLED None None ''t3'' s2
    in ok = True
     \<and> map_option job_status (lookup ''B'' s3) = Some PENDING
     \<and> fst (dequeue_job ''t4'' s3) = None)"
  by (auto simp: initialize_def JobQueue_init_def enqueue_job_def update_job_status_def
      update_job_status_obj_def set_status_def persist_def lookup_def
      get_job_def fallback_get_def mutate_def fallback_store_def
      dequeue_job_def dequeue_fallback_def redis_cmd_def redis_get_def
      redis_setex_def redis_zadd_def redis_zrevrange_0_0_def raises_def Let_def)

text \<open>
  The command-by-command model of \<^verbatim>\<open>dequeue_job\<close> agrees with the function: a task run
  alone, to its end, returns what \<^const>\<open>dequeue_job\<close> returns and leaves the queue it
  leaves.
\<close>

lemma dq_steps_done [simp]: "dq_steps now n (DQ_done r, s) = (DQ_done r, s)"
  by (induction n) simp_all

lemma dq_sequential:
  "dq_steps now 5 (DQ_start, self) = (DQ_done (fst (dequeue_job now self)), snd (dequeue_job now self))"
  by (auto simp: eval_nat_numeral dequeue_job_def dq_return_def update_job_status_obj_def Let_def
           split: prod.splits option.splits list.splits bool.splits)

text \<open>
  \<^bold>\<open>Claim C9\<close> (two concurrent \<^verbatim>\<open>dequeue_job\<close> calls never return the same job id) does
  not hold of the Redis path: the job is read (\<^verbatim>\<open>zrevrange\<close>, \<^verbatim>\<open>get\<close>) and claimed
  (\<^verbatim>\<open>zrem\<close>, \<^verbatim>\<open>setex\<close>) by separate commands. With one pending job J in the queue and
  the two tasks taking turns for their first two commands, both tasks see J pending and both
  return it.
\<close>

theorem concurrent_dequeue_same_job:
  "(let self = \<lparr>redis_client = \<lparr>store = [(''J'', example_job ''J'' PENDING 0)],
                                  queue = [(''J'', 0)], faults = []\<rparr>,
                 redis_available = True, fallback_queue = []\<rparr>;
        (a, b, s) = interleave ''t1''
                      [True, False, True, False, True, True, True, False, False, False]
                      (DQ_start, DQ_start, self)
    in returned_id a = Some ''J'' \<and> returned_id b = Some ''J'')"
  by (simp add: returned_id_def example_job_def set_status_def persist_def
      get_job_def fallback_get_def mutate_def fallback_store_def dq_return_def
      dequeue_fallback_def redis_cmd_def redis_get_def redis_zrem_def
      redis_setex_def redis_zadd_def redis_zrevrange_0_0_def raises_def Let_def)

section \<open>Document status store\<close>

subsection \<open>Statements that do not raise\<close>

lemma healthy_not_raises: "healthy (Suc n) db \<Longrightarrow> \<not> db_raises db"
  by (cases "db_faults db") (simp_all add: healthy_def db_raises_def)

lemma healthy_tl: "healthy (Suc n) db \<Longrightarrow> healthy n (db\<lparr>db_faults := tl (db_faults db), db_clock := c\<rparr>)"
  by (cases "db_faults db") (simp_all add: healthy_def)

lemma execute_query_healthy:
  "healthy (Suc n) db \<Longrightarrow>
     execute_query q db =
       (Some (q (db\<lparr>db_faults := tl (db_faults db)\<rparr>)),
        db\<lparr>db_faults := tl (db_faults db), db_clock := Suc (db_clock db)\<rparr>)"
  by (simp add: execute_query_def execute_def healthy_not_raises Let_def)

lemma execute_command_True:
  "execute_command f db = (True, db') \<Longrightarrow>
     db' = (f (db\<lparr>db_faults := tl (db_faults db)\<rparr>))
             \<lparr>db_clock := Suc (db_clock (f (db\<lparr>db_faults := tl (db_faults db)\<rparr>)))\<rparr>"
  by (auto simp: execute_command_def execute_def Let_def split: if_splits)

lemma stage_rows_of_updates [simp]:
  "stage_rows_of document_id (db\<lparr>db_faults := fs\<rparr>) = stage_rows_of document_id db"
  "stage_rows_of document_id (db\<lparr>db_clock := c\<rparr>) = stage_rows_of document_id db"
  "stage_rows_of document_id (db\<lparr>documents := ds\<rparr>) = stage_rows_of document_id db"
  by (simp_all add: stage_rows_of_def)

subsection \<open>The status of a document that has not started\<close>

text \<open>
  \<^bold>\<open>Claim C10.\<close> For every document that has a row in \<open>documents\<close> and no row yet in
  \<open>processing_stages\<close>, \<^verbatim>\<open>get_document_status\<close> (its two queries not raising)
  returns progress 0, current stage \<open>Preprocessing\<close> and the five default stages
  \<open>preprocessing\<close>, \<open>ocr_extraction\<close>, \<open>llm_processing\<close>, \<open>validation\<close>, \<open>routing\<close>,
  each \<open>pending\<close>: the empty stage list is replaced by the defaults.
\<close>

theorem status_of_unstarted_document:
  assumes "list_ex (\<lambda>r. doc_id r = document_id) (documents db)"
    and "stage_rows_of document_id db = []"
    and "healthy 2 db"
  shows "map_option (\<lambda>view. (st_progress view, st_current_stage view, st_stages view))
           (fst (get_document_status document_id db)) = Some (0, ''Preprocessing'', default_stages)
       \<and> map (\<lambda>s. (sv_name s, sv_status s)) default_stages =
           [(''preprocessing'', ''pending''), (''ocr_extraction'', ''pending''),
            (''llm_processing'', ''pending''), (''validation'', ''pending''),
            (''routing'', ''pending'')]"
proof -
  obtain doc rest where d: "filter (\<lambda>r. doc_id r = document_id) (documents db) = doc # rest"
    using assms(1) by (cases "filter (\<lambda>r. doc_id r = document_id) (documents db)")
      (auto simp: list_ex_iff filter_empty_conv)
  have h2: "healthy (Suc (Suc 0)) db" using assms(3) by (simp add: numeral_2_eq_2)
  have h1: "healthy (Suc 0) (db\<lparr>db_faults := tl (db_faults db), db_clock := Suc (db_clock db)\<rparr>)"
    using h2 by (rule healthy_tl)
  have "map_option (\<lambda>view. (st_progress view, st_current_stage view, st_stages view))
           (fst (get_document_status document_id db)) = Some (0, ''Preprocessing'', default_stages)"
    using d assms(2)
    by (simp add: get_document_status_def execute_query_healthy[OF h2] execute_query_healthy[OF h1]
        stage_progress_def)
  then show ?thesis by (simp add: default_stages_def)
qed

text \<open>A witness: one uploaded document, no stage rows, the third statement to come raising.\<close>

theorem status_of_unstarted_document_witness:
  "(let db = \<lparr>documents = [\<lparr>doc_id = example_document_id, doc_filename = ''invoice.pdf'', doc_status = ''uploaded'',
                               doc_processing_stage = ''uploaded'', doc_document_type = ''invoice'',
                               doc_upload_timestamp = 0\<rparr>],
                processing_stages = [], extraction_results = [], quality_scores = [],
                routing_decisions = [], db_clock = 1, db_faults = [False, False, True]\<rparr>
    in list_ex (\<lambda>r. doc_id r = example_document_id) (documents db)
     \<and> stage_rows_of example_document_id db = []
     \<and> healthy 2 db
     \<and> map_option (\<lambda>view. (st_progress view, st_current_stage view, st_stages view))
           (fst (get_document_status example_document_id db)) = Some (0, ''Preprocessing'', default_stages))"
proof -
  define db where "db = \<lparr>documents = [\<lparr>doc_id = example_document_id, doc_filename = ''invoice.pdf'', doc_status = ''uploaded'',
                               doc_processing_stage = ''uploaded'', doc_document_type = ''invoice'',
                               doc_upload_timestamp = 0\<rparr>],
                processing_stages = [], extraction_results = [], quality_scores = [],
                routing_decisions = [], db_clock = 1, db_faults = [False, False, True]\<rparr>"
  have h: "list_ex (\<lambda>r. doc_id r = example_document_id) (documents db)" "stage_rows_of example_document_id db = []" "healthy 2 db"
    by (simp_all add: db_def stage_rows_of_def healthy_def)
  from status_of_unstarted_document[OF h]
  have "map_option (\<lambda>view. (st_progress view, st_current_stage view, st_stages view))
           (fst (get_document_status example_document_id db)) = Some (0, ''Preprocessing'', default_stages)"
    by (rule conjunct1)
  with h show ?thesis unfolding Let_def db_def[symmetric] by (intro conjI)
qed

subsection \<open>Stored results\<close>

lemma those_map_Some: "(\<And>x. x \<in> set xs \<Longrightarrow> f x = Some (g x)) \<Longrightarrow> those (map f xs) = Some (map g xs)"
  by (induction xs) auto

lemma json_plain_fixed: "json_plain v \<Longrightarrow> ensure_serializable v = v \<and> json_dumps v = Some v"
proof (induction v rule: json_plain.induct)
  case (1 xs)
  then have a: "\<And>x. x \<in> set xs \<Longrightarrow> ensure_serializable x = x \<and> json_dumps x = Some x"
    by (simp add: list_all_iff)
  then have "those (map json_dumps xs) = Some (map id xs)"
    by (intro those_map_Some) simp
  then show ?case using a by (simp add: map_idI)
next
  case (2 kvs)
  then have a: "\<And>kv. kv \<in> set kvs \<Longrightarrow>
      ensure_serializable (snd kv) = snd kv \<and> json_dumps (snd kv) = Some (snd kv)"
    by (simp add: list_all_iff)
  then have "those (map (\<lambda>kv. map_option (Pair (fst kv)) (json_dumps (snd kv))) kvs) = Some (map id kvs)"
    by (intro those_map_Some) simp
  then show ?case using a by (simp add: map_idI)
qed simp_all

lemma json_form_plain: "json_plain v \<Longrightarrow> json_form (ensure_serializable v) = v \<and> json_form v = v"
  by (simp add: json_form_def json_plain_fixed)

lemma extraction_dict_snoc:
  "extraction_dict (rows @ [r]) = dict_set (er_stage r) (extraction_view_of r) (extraction_dict rows)"
  by (simp add: extraction_dict_def)

lemma saved_extraction_result:
  assumes "save_extraction_result document_id stage raw_data processed_data confidence_score
             processing_time_ms model_used metadata db = (True, db1)"
  shows "\<exists>row. extraction_results db1 =
           filter (\<lambda>r. \<not> (er_document_id r = document_id \<and> er_stage r = stage)) (extraction_results db) @ [row]
         \<and> er_document_id row = document_id \<and> er_stage row = stage
         \<and> extraction_view_of row =
             \<lparr>ev_raw_data = json_form (ensure_serializable raw_data),
              ev_processed_data = json_form (ensure_serializable processed_data),
              ev_confidence_score = confidence_score,
              ev_processing_time_ms = processing_time_ms,
              ev_model_used = model_used,
              ev_metadata = json_form (ensure_serializable (or_empty_dict metadata))\<rparr>"
proof -
  obtain ok1 d1 where c1: "execute_command
                (\<lambda>d. d\<lparr>extraction_results :=
                        filter (\<lambda>r. \<not> (er_document_id r = document_id \<and> er_stage r = stage))
                          (extraction_results d)\<rparr>) db = (ok1, d1)" by force
  from assms c1 have ok1 by (cases ok1) (auto simp: save_extraction_result_def Let_def)
  with c1 have e1: "extraction_results d1 =
      filter (\<lambda>r. \<not> (er_document_id r = document_id \<and> er_stage r = stage)) (extraction_results db)"
    by (auto dest!: execute_command_True)
  from assms c1 \<open>ok1\<close> obtain raw processed meta where
    j: "json_dumps (ensure_serializable raw_data) = Some raw"
       "json_dumps (ensure_serializable processed_data) = Some processed"
       "json_dumps (ensure_serializable (or_empty_dict metadata)) = Some meta"
    and c2: "execute_command
                    (\<lambda>d. d\<lparr>extraction_results := extraction_results d @
                            [\<lparr>er_document_id = document_id, er_stage = stage, er_raw_data = raw,
                              er_processed_data = processed,
                              er_confidence_score = confidence_score,
                              er_processing_time_ms = processing_time_ms,
                              er_model_used = model_used, er_metadata = meta\<rparr>]\<rparr>) d1 = (True, db1)"
    by (auto simp: save_extraction_result_def Let_def split: option.splits)
  from c2 have "extraction_results db1 = extraction_results d1 @
                            [\<lparr>er_document_id = document_id, er_stage = stage, er_raw_data = raw,
                              er_processed_data = processed,
                              er_confidence_score = confidence_score,
                              er_processing_time_ms = processing_time_ms,
                              er_model_used = model_used, er_metadata = meta\<rparr>]"
    by (auto dest!: execute_command_True)
  with e1 j show ?thesis
    by (simp add: extraction_view_of_def parse_jsonb_field_def json_form_def)
qed


lemma saved_quality_score:
  assumes "save_quality_score document_id overall_score completeness_score accuracy_score
             compliance_score quality_score decision reasoning issues_found confidence judge_model db
           = (True, db1)"
  shows "\<exists>row. quality_scores db1 =
           filter (\<lambda>r. qs_document_id r \<noteq> document_id) (quality_scores db) @ [row]
         \<and> qs_document_id row = document_id
         \<and> quality_view_of row =
             \<lparr>qv_overall_score = overall_score, qv_completeness_score = completeness_score,
              qv_accuracy_score = accuracy_score, qv_compliance_score = compliance_score,
              qv_quality_score = quality_score, qv_decision = decision,
              qv_reasoning = json_form reasoning, qv_issues_found = json_form issues_found,
              qv_confidence = confidence, qv_judge_model = judge_model\<rparr>"
proof -
  obtain ok1 d1 where c1: "execute_command
             (\<lambda>d. d\<lparr>quality_scores :=
                     filter (\<lambda>r. qs_document_id r \<noteq> document_id) (quality_scores d)\<rparr>) db = (ok1, d1)"
    by force
  from assms c1 have ok1 by (cases ok1) (auto simp: save_quality_score_def)
  with c1 have e1: "quality_scores d1 = filter (\<lambda>r. qs_document_id r \<noteq> document_id) (quality_scores db)"
    by (auto dest!: execute_command_True)
  from assms c1 \<open>ok1\<close> obtain reasoning_json issues_json where
    j: "json_dumps reasoning = Some reasoning_json" "json_dumps issues_found = Some issues_json"
    and c2: "execute_command
                 (\<lambda>d. d\<lparr>quality_scores := quality_scores d @
                         [\<lparr>qs_document_id = document_id, qs_overall_score = overall_score,
                           qs_completeness_score = completeness_score,
                           qs_accuracy_score = accuracy_score,
                           qs_compliance_score = compliance_score,
                           qs_quality_score = quality_score, qs_decision = decision,
                           qs_reasoning = reasoning_json, qs_issues_found = issues_json,
                           qs_confidence = confidence, qs_judge_model = judge_model\<rparr>]\<rparr>) d1
             = (True, db1)"
    by (auto simp: save_quality_score_def split: option.splits)
  from c2 have "quality_scores db1 = quality_scores d1 @
                         [\<lparr>qs_document_id = document_id, qs_overall_score = overall_score,
                           qs_completeness_score = completeness_score,
                           qs_accuracy_score = accuracy_score,
                           qs_compliance_score = compliance_score,
                           qs_quality_score = quality_score, qs_decision = decision,
                           qs_reasoning = reasoning_json, qs_issues_found = issues_json,
                           qs_confidence = confidence, qs_judge_model = judge_model\<rparr>]"
    by (auto dest!: execute_command_True)
  with e1 j show ?thesis
    by (simp add: quality_view_of_def parse_jsonb_field_def json_form_def)
qed

lemma saved_routing_decision:
  assumes "save_routing_decision document_id routing_action routing_reason wms_integration_status
             wms_integration_data human_review_required db = (True, db1)"
  shows "\<exists>row. routing_decisions db1 =
           filter (\<lambda>r. rd_document_id r \<noteq> document_id) (routing_decisions db) @ [row]
         \<and> rd_document_id row = document_id
         \<and> routing_view_of row =
             \<lparr>ro_routing_action = routing_action, ro_routing_reason = routing_reason,
              ro_wms_integration_status = wms_integration_status,
              ro_wms_integration_data = json_form wms_integration_data,
              ro_human_review_required = human_review_required\<rparr>"
proof -
  obtain ok1 d1 where c1: "execute_command
             (\<lambda>d. d\<lparr>routing_decisions :=
                     filter (\<lambda>r. rd_document_id r \<noteq> document_id) (routing_decisions d)\<rparr>) db = (ok1, d1)"
    by force
  from assms c1 have ok1 by (cases ok1) (auto simp: save_routing_decision_def)
  with c1 have e1: "routing_decisions d1 = filter (\<lambda>r. rd_document_id r \<noteq> document_id) (routing_decisions db)"
    by (auto dest!: execute_command_True)
  from assms c1 \<open>ok1\<close> obtain data_json where
    j: "json_dumps wms_integration_data = Some data_json"
    and c2: "execute_command
                 (\<lambda>d. d\<lparr>routing_decisions := routing_decisions d @
                         [\<lparr>rd_document_id = document_id, rd_routing_action = routing_action,
                           rd_routing_reason = routing_reason,
                           rd_wms_integration_status = wms_integration_status,
                           rd_wms_integration_data = data_json,
                           rd_human_review_required = human_review_required\<rparr>]\<rparr>) d1 = (True, db1)"
    by (auto simp: save_routing_decision_def split: option.splits)
  from c2 have "routing_decisions db1 = routing_decisions d1 @
                         [\<lparr>rd_document_id = document_id, rd_routing_action = routing_action,
                           rd_routing_reason = routing_reason,
                           rd_wms_integration_status = wms_integration_status,
                           rd_wms_integration_data = data_json,
                           rd_human_review_required = human_review_required\<rparr>]"
    by (auto dest!: execute_command_True)
  with e1 j show ?thesis
    by (simp add: routing_view_of_def parse_jsonb_field_def json_form_def)
qed

lemma get_extraction_results_healthy:
  assumes "healthy 3 db"
  shows "fst (get_extraction_results document_id db) =
     Some \<lparr>rv_extraction_results =
             extraction_dict (filter (\<lambda>r. er_document_id r = document_id) (extraction_results db)),
           rv_quality_score =
             (case filter (\<lambda>r. qs_document_id r = document_id) (quality_scores db) of
                [] \<Rightarrow> None | q # _ \<Rightarrow> Some (quality_view_of q)),
           rv_routing_decision =
             (case filter (\<lambda>r. rd_document_id r = document_id) (routing_decisions db) of
                [] \<Rightarrow> None | r # _ \<Rightarrow> Some (routing_view_of r))\<rparr>"
proof -
  have h3: "healthy (Suc (Suc (Suc 0))) db" using assms by (simp add: numeral_3_eq_3)
  define db1 where "db1 = db\<lparr>db_faults := tl (db_faults db), db_clock := Suc (db_clock db)\<rparr>"
  have h2: "healthy (Suc (Suc 0)) db1" unfolding db1_def using h3 by (rule healthy_tl)
  define db2 where "db2 = db1\<lparr>db_faults := tl (db_faults db1), db_clock := Suc (db_clock db1)\<rparr>"
  have h1: "healthy (Suc 0) db2" unfolding db2_def using h2 by (rule healthy_tl)
  have q1: "execute_query q db = (Some (q (db\<lparr>db_faults := tl (db_faults db)\<rparr>)), db1)" for q :: "database \<Rightarrow> 'x"
    unfolding db1_def using h3 by (rule execute_query_healthy)
  have q2: "execute_query q db1 = (Some (q (db1\<lparr>db_faults := tl (db_faults db1)\<rparr>)), db2)" for q :: "database \<Rightarrow> 'x"
    unfolding db2_def using h2 by (rule execute_query_healthy)
  define db3 where "db3 = db2\<lparr>db_faults := tl (db_faults db2), db_clock := Suc (db_clock db2)\<rparr>"
  have q3: "execute_query q db2 = (Some (q (db2\<lparr>db_faults := tl (db_faults db2)\<rparr>)), db3)" for q :: "database \<Rightarrow> 'x"
    unfolding db3_def using h1 by (rule execute_query_healthy)
  have t: "quality_scores db1 = quality_scores db" "routing_decisions db2 = routing_decisions db"
    by (simp_all add: db1_def db2_def)
  show ?thesis
    by (simp add: get_extraction_results_def q1 q2 q3 t)
qed

lemmas store_eval =
  save_extraction_result_def save_quality_score_def save_routing_decision_def
  get_extraction_results_def execute_command_def execute_query_def execute_def db_raises_def
  empty_database_def extraction_dict_def extraction_view_of_def quality_view_of_def
  routing_view_of_def parse_jsonb_field_def or_empty_dict_def Let_def

text \<open>
  Claim C8, as written: a result read back is exactly the value most recently written for its
  key. It is not, for a value that JSON does not have: \<^verbatim>\<open>_ensure_serializable\<close> and
  \<^verbatim>\<open>json.dumps\<close> turn a tuple into a list (and an image, a date or another object into a
  dict or a string), and the read returns that form. Here the extraction result written with
  \<^verbatim>\<open>raw_data = {"size": (1, 2)}\<close> is read back as \<^verbatim>\<open>{"size": [1, 2]}\<close>.
\<close>

theorem tuple_payload_counterexample:
  "(let raw = PyDict [(''size'', PyTuple [PyInt 1, PyInt 2])];
        (ok, db1) = save_extraction_result example_document_id ''ocr_extraction'' raw (PyDict []) 1 12
                      ''ocr'' None empty_database
    in ok
     \<and> map_option (\<lambda>view. map_option ev_raw_data (dict_get (rv_extraction_results view) ''ocr_extraction''))
          (fst (get_extraction_results example_document_id db1)) =
        Some (Some (PyDict [(''size'', PyList [PyInt 1, PyInt 2])]))
     \<and> PyDict [(''size'', PyList [PyInt 1, PyInt 2])] \<noteq> raw)"
  by (simp add: store_eval)

text \<open>
  Claim C8, amended: after a write that returned \<^verbatim>\<open>True\<close>, if the three queries of the read
  do not raise, the read returns for that key the JSON form of the value just written
  (for an extraction result, of its serializable form), whatever was stored under the key
  before, and the table holds exactly one row for the key: one per (document, stage) for
  extraction results, one per document for the quality score and the routing decision.
  For a value made of JSON's own kinds (no tuple, image, date or other object inside) the JSON
  form is the value itself, so that the read returns exactly what was written.
\<close>

theorem latest_result_wins:
  "(save_extraction_result document_id stage raw_data processed_data confidence_score
        processing_time_ms model_used metadata db = (True, db1) \<and> healthy 3 db1 \<longrightarrow>
      map_option (\<lambda>view. dict_get (rv_extraction_results view) stage)
          (fst (get_extraction_results document_id db1)) =
        Some (Some \<lparr>ev_raw_data = json_form (ensure_serializable raw_data),
                    ev_processed_data = json_form (ensure_serializable processed_data),
                    ev_confidence_score = confidence_score,
                    ev_processing_time_ms = processing_time_ms,
                    ev_model_used = model_used,
                    ev_metadata = json_form (ensure_serializable (or_empty_dict metadata))\<rparr>)
      \<and> length (filter (\<lambda>r. er_document_id r = document_id \<and> er_stage r = stage)
                  (extraction_results db1)) = 1)
   \<and> (save_quality_score document_id overall_score completeness_score accuracy_score
        compliance_score quality_score decision reasoning issues_found confidence judge_model db
        = (True, db2) \<and> healthy 3 db2 \<longrightarrow>
      map_option rv_quality_score (fst (get_extraction_results document_id db2)) =
        Some (Some \<lparr>qv_overall_score = overall_score, qv_completeness_score = completeness_score,
                    qv_accuracy_score = accuracy_score, qv_compliance_score = compliance_score,
                    qv_quality_score = quality_score, qv_decision = decision,
                    qv_reasoning = json_form reasoning, qv_issues_found = json_form issues_found,
                    qv_confidence = confidence, qv_judge_model = judge_model\<rparr>)
      \<and> length (filter (\<lambda>r. qs_document_id r = document_id) (quality_scores db2)) = 1)
   \<and> (save_routing_decision document_id routing_action routing_reason wms_integration_status
        wms_integration_data human_review_required db = (True, db3) \<and> healthy 3 db3 \<longrightarrow>
      map_option rv_routing_decision (fst (get_extraction_results document_id db3)) =
        Some (Some \<lparr>ro_routing_action = routing_action, ro_routing_reason = routing_reason,
                    ro_wms_integration_status = wms_integration_status,
                    ro_wms_integration_data = json_form wms_integration_data,
                    ro_human_review_required = human_review_required\<rparr>)
      \<and> length (filter (\<lambda>r. rd_document_id r = document_id) (routing_decisions db3)) = 1)
   \<and> (json_plain v \<longrightarrow> json_form (ensure_serializable v) = v \<and> json_form v = v)"
proof (intro conjI impI)
  assume a: "save_extraction_result document_id stage raw_data processed_data confidence_score
        processing_time_ms model_used metadata db = (True, db1) \<and> healthy 3 db1"
  then obtain row where r: "extraction_results db1 =
           filter (\<lambda>r. \<not> (er_document_id r = document_id \<and> er_stage r = stage)) (extraction_results db) @ [row]"
         "er_document_id row = document_id" "er_stage row = stage"
         "extraction_view_of row =
             \<lparr>ev_raw_data = json_form (ensure_serializable raw_data),
              ev_processed_data = json_form (ensure_serializable processed_data),
              ev_confidence_score = confidence_score,
              ev_processing_time_ms = processing_time_ms,
              ev_model_used = model_used,
              ev_metadata = json_form (ensure_serializable (or_empty_dict metadata))\<rparr>"
    using saved_extraction_result by blast
  have f: "filter (\<lambda>r. er_document_id r = document_id) (extraction_results db1) =
      filter (\<lambda>r. er_document_id r = document_id)
        (filter (\<lambda>r. \<not> (er_document_id r = document_id \<and> er_stage r = stage)) (extraction_results db))
      @ [row]"
    using r(1,2) by simp
  show "map_option (\<lambda>view. dict_get (rv_extraction_results view) stage)
          (fst (get_extraction_results document_id db1)) =
        Some (Some \<lparr>ev_raw_data = json_form (ensure_serializable raw_data),
                    ev_processed_data = json_form (ensure_serializable processed_data),
                    ev_confidence_score = confidence_score,
                    ev_processing_time_ms = processing_time_ms,
                    ev_model_used = model_used,
                    ev_metadata = json_form (ensure_serializable (or_empty_dict metadata))\<rparr>)"
    using a r(3,4) by (simp add: get_extraction_results_healthy f extraction_dict_snoc)
  show "length (filter (\<lambda>r. er_document_id r = document_id \<and> er_stage r = stage)
                  (extraction_results db1)) = 1"
    using r(1,2,3) by (simp add: filter_empty_conv)
next
  assume a: "save_quality_score document_id overall_score completeness_score accuracy_score
        compliance_score quality_score decision reasoning issues_found confidence judge_model db
        = (True, db2) \<and> healthy 3 db2"
  then obtain row where r: "quality_scores db2 =
           filter (\<lambda>r. qs_document_id r \<noteq> document_id) (quality_scores db) @ [row]"
         "qs_document_id row = document_id"
         "quality_view_of row =
             \<lparr>qv_overall_score = overall_score, qv_completeness_score = completeness_score,
              qv_accuracy_score = accuracy_score, qv_compliance_score = compliance_score,
              qv_quality_score = quality_score, qv_decision = decision,
              qv_reasoning = json_form reasoning, qv_issues_found = json_form issues_found,
              qv_confidence = confidence, qv_judge_model = judge_model\<rparr>"
    using saved_quality_score by blast
  have f: "filter (\<lambda>r. qs_document_id r = document_id) (quality_scores db2) = [row]"
    using r(1,2) by (simp add: filter_empty_conv)
  show "map_option rv_quality_score (fst (get_extraction_results document_id db2)) =
        Some (Some \<lparr>qv_overall_score = overall_score, qv_completeness_score = completeness_score,
                    qv_accuracy_score = accuracy_score, qv_compliance_score = compliance_score,
                    qv_quality_score = quality_score, qv_decision = decision,
                    qv_reasoning = json_form reasoning, qv_issues_found = json_form issues_found,
                    qv_confidence = confidence, qv_judge_model = judge_model\<rparr>)"
    using a r(3) by (simp add: get_extraction_results_healthy f)
  show "length (filter (\<lambda>r. qs_document_id r = document_id) (quality_scores db2)) = 1"
    using f by simp
next
  assume a: "save_routing_decision document_id routing_action routing_reason wms_integration_status
        wms_integration_data human_review_required db = (True, db3) \<and> healthy 3 db3"
  then obtain row where r: "routing_decisions db3 =
           filter (\<lambda>r. rd_document_id r \<noteq> document_id) (routing_decisions db) @ [row]"
         "rd_document_id row = document_id"
         "routing_view_of row =
             \<lparr>ro_routing_action = routing_action, ro_routing_reason = routing_reason,
              ro_wms_integration_status = wms_integration_status,
              ro_wms_integration_data = json_form wms_integration_data,
              ro_human_review_required = human_review_required\<rparr>"
    using saved_routing_decision by blast
  have f: "filter (\<lambda>r. rd_document_id r = document_id) (routing_decisions db3) = [row]"
    using r(1,2) by (simp add: filter_empty_conv)
  show "map_option rv_routing_decision (fst (get_extraction_results document_id db3)) =
        Some (Some \<lparr>ro_routing_action = routing_action, ro_routing_reason = routing_reason,
                    ro_wms_integration_status = wms_integration_status,
                    ro_wms_integration_data = json_form wms_integration_data,
                    ro_human_review_required = human_review_required\<rparr>)"
    using a r(3) by (simp add: get_extraction_results_healthy f)
  show "length (filter (\<lambda>r. rd_document_id r = document_id) (routing_decisions db3)) = 1"
    using f by simp
next
  assume "json_plain v"
  then show "json_form (ensure_serializable v) = v" "json_form v = v"
    by (simp_all add: json_form_plain)
qed

theorem latest_result_wins_witness:
  "(let dbA = snd (save_extraction_result example_document_id ''ocr_extraction'' (PyStr ''old'') (PyDict []) 1 12
                     ''ocr'' None empty_database);
        dbB = snd (save_extraction_result example_document_id ''ocr_extraction'' (PyStr ''new'') (PyDict []) 1 15
                     ''ocr'' None dbA)
    in save_extraction_result example_document_id ''ocr_extraction'' (PyStr ''new'') (PyDict []) 1 15
         ''ocr'' None dbA = (True, dbB)
     \<and> healthy 3 dbB
     \<and> map_option (\<lambda>view. map_option ev_raw_data (dict_get (rv_extraction_results view) ''ocr_extraction''))
          (fst (get_extraction_results example_document_id dbB)) = Some (Some (PyStr ''new''))
     \<and> length (filter (\<lambda>r. er_document_id r = example_document_id \<and> er_stage r = ''ocr_extraction'')
                 (extraction_results dbB)) = 1)
   \<and> (let dbQ = snd (save_quality_score example_document_id 4 4 4 4 4 ''APPROVE'' (PyStr ''fine'') (PyList []) 1
                     ''judge'' empty_database)
      in save_quality_score example_document_id 4 4 4 4 4 ''APPROVE'' (PyStr ''fine'') (PyList []) 1
           ''judge'' empty_database = (True, dbQ)
       \<and> healthy 3 dbQ
       \<and> map_option (\<lambda>view. map_option qv_reasoning (rv_quality_score view))
            (fst (get_extraction_results example_document_id dbQ)) = Some (Some (PyStr ''fine''))
       \<and> length (filter (\<lambda>r. qs_document_id r = example_document_id) (quality_scores dbQ)) = 1)
   \<and> (let dbR = snd (save_routing_decision example_document_id ''auto_approve'' ''good'' ''pending'' (PyDict [])
                     False empty_database)
      in save_routing_decision example_document_id ''auto_approve'' ''good'' ''pending'' (PyDict [])
           False empty_database = (True, dbR)
       \<and> healthy 3 dbR
       \<and> map_option (\<lambda>view. map_option ro_routing_action (rv_routing_decision view))
            (fst (get_extraction_results example_document_id dbR)) = Some (Some ''auto_approve'')
       \<and> length (filter (\<lambda>r. rd_document_id r = example_document_id) (routing_decisions dbR)) = 1)
   \<and> json_plain (PyStr ''new'')
   \<and> json_form (ensure_serializable (PyStr ''new'')) = PyStr ''new''"
proof -
  define dbA where "dbA = snd (save_extraction_result example_document_id ''ocr_extraction'' (PyStr ''old'')
                                 (PyDict []) 1 12 ''ocr'' None empty_database)"
  define dbB where "dbB = snd (save_extraction_result example_document_id ''ocr_extraction'' (PyStr ''new'')
                                 (PyDict []) 1 15 ''ocr'' None dbA)"
  define dbQ where "dbQ = snd (save_quality_score example_document_id 4 4 4 4 4 ''APPROVE'' (PyStr ''fine'')
                                 (PyList []) 1 ''judge'' empty_database)"
  define dbR where "dbR = snd (save_routing_decision example_document_id ''auto_approve'' ''good'' ''pending''
                                 (PyDict []) False empty_database)"
  have a1: "save_extraction_result example_document_id ''ocr_extraction'' (PyStr ''new'') (PyDict []) 1 15
              ''ocr'' None dbA = (True, dbB)"
    unfolding dbB_def dbA_def by (simp add: store_eval)
  have a2: "healthy 3 dbB"
    unfolding dbB_def dbA_def by (simp add: store_eval healthy_def)
  have q1: "save_quality_score example_document_id 4 4 4 4 4 ''APPROVE'' (PyStr ''fine'') (PyList []) 1
              ''judge'' empty_database = (True, dbQ)"
    unfolding dbQ_def by (simp add: store_eval)
  have q2: "healthy 3 dbQ"
    unfolding dbQ_def by (simp add: store_eval healthy_def)
  have r1: "save_routing_decision example_document_id ''auto_approve'' ''good'' ''pending'' (PyDict [])
              False empty_database = (True, dbR)"
    unfolding dbR_def by (simp add: store_eval)
  have r2: "healthy 3 dbR"
    unfolding dbR_def by (simp add: store_eval healthy_def)
  have p: "json_plain (PyStr ''new'')"
    by simp
  note t = latest_result_wins [of example_document_id "''ocr_extraction''" "PyStr ''new''" "PyDict []" 1 15
             "''ocr''" None dbA dbB 4 4 4 4 4 "''APPROVE''" "PyStr ''fine''" "PyList []" 1
             "''judge''" dbQ "''auto_approve''" "''good''" "''pending''" "PyDict []"
             False dbR "PyStr ''new''"]
  note u = latest_result_wins [of example_document_id "''ocr_extraction''" "PyStr ''new''" "PyDict []" 1 15
             "''ocr''" None empty_database dbB 4 4 4 4 4 "''APPROVE''" "PyStr ''fine''" "PyList []" 1
             "''judge''" dbQ "''auto_approve''" "''good''" "''pending''" "PyDict []"
             False dbR "PyStr ''fine''"]
  note ee = mp [OF conjunct1 [OF t] conjI [OF a1 a2]]
  note e = conjunct1 [OF ee] and e1 = conjunct2 [OF ee]
  note qq = mp [OF conjunct1 [OF conjunct2 [OF u]] conjI [OF q1 q2]]
  note q = conjunct1 [OF qq] and q3 = conjunct2 [OF qq]
  note rr = mp [OF conjunct1 [OF conjunct2 [OF conjunct2 [OF u]]] conjI [OF r1 r2]]
  note r = conjunct1 [OF rr] and r3 = conjunct2 [OF rr]
  note j = conjunct1 [OF mp [OF conjunct2 [OF conjunct2 [OF conjunct2 [OF t]]] p]]
  have j2: "json_form (PyStr ''fine'') = PyStr ''fine''"
    by (rule conjunct2 [OF mp [OF conjunct2 [OF conjunct2 [OF conjunct2 [OF u]]]]]) simp
  have e': "map_option (\<lambda>view. map_option ev_raw_data (dict_get (rv_extraction_results view) ''ocr_extraction''))
          (fst (get_extraction_results example_document_id dbB)) = Some (Some (PyStr ''new''))"
    using e j by (cases "fst (get_extraction_results example_document_id dbB)") auto
  have q': "map_option (\<lambda>view. map_option qv_reasoning (rv_quality_score view))
            (fst (get_extraction_results example_document_id dbQ)) = Some (Some (PyStr ''fine''))"
    using q j2 by (cases "fst (get_extraction_results example_document_id dbQ)") auto
  have r': "map_option (\<lambda>view. map_option ro_routing_action (rv_routing_decision view))
            (fst (get_extraction_results example_document_id dbR)) = Some (Some ''auto_approve'')"
    using r by (cases "fst (get_extraction_results example_document_id dbR)") auto
  show ?thesis
    unfolding Let_def dbA_def[symmetric] dbB_def[symmetric] dbQ_def[symmetric] dbR_def[symmetric]
    using a1 a2 e' e1 q1 q2 q' q3 r1 r2 r' r3 p j by (intro conjI)
qed

section \<open>Stage orchestrator\<close>

subsection \<open>The branches of a run do not depend on the calls made\<close>

lemma database_active_with_db: "database_active (with_db f t) = database_active t"
  by (simp add: database_active_def with_db_def split: option.splits)

lemma database_active_with_mem: "database_active (with_mem document_id f t) = database_active t"
  by (simp add: database_active_def with_mem_def split: option.splits)

lemma tracked_with_db: "document_statuses (with_db f t) = document_statuses t"
  by (simp add: with_db_def split: option.splits)

lemma dict_get_set_other: "d \<noteq> k \<Longrightarrow> dict_get (dict_set k v kvs) d = dict_get kvs d"
  by (induction kvs) auto

lemma tracked_with_mem:
  "(dict_get (document_statuses (with_mem document_id f t)) d = None)
     = (dict_get (document_statuses t) d = None)"
  by (cases "d = document_id") (auto simp: with_mem_def dict_get_set_other split: option.splits)

lemma exec_call_keeps_branches:
  "database_active (exec_call document_id now c t) = database_active t
   \<and> (dict_get (document_statuses (exec_call document_id now c t)) document_id = None)
       = (dict_get (document_statuses t) document_id = None)"
  by (cases c)
     (simp_all add: database_active_with_db database_active_with_mem tracked_with_db tracked_with_mem
        tools_update_document_status_def tools_store_processing_results_def)

subsection \<open>The statuses a run writes\<close>

lemma status_writes_append [simp]: "status_writes (xs @ ys) = status_writes xs @ status_writes ys"
  by (simp add: status_writes_def map_filter_def)

lemma status_writes_simps [simp]:
  "status_writes [] = []"
  "status_writes (c # cs) = (case status_written c of None \<Rightarrow> status_writes cs | Some s \<Rightarrow> s # status_writes cs)"
  by (simp_all add: status_writes_def map_filter_def split: option.splits)

lemma stage_writes:
  "status_writes (fst (execute_processing_stage isinstance sanitize_error_message t document_id
                         stage_name next_stage progress f)) =
     (if succeeded (stage_result isinstance f)
      then (if database_active t then [stage_name] else [])
      else [''failed''])"
  by (auto simp: execute_processing_stage_def stage_result_def succeeded_def Let_def
        update_stage_completion_def handle_stage_error_def split: outcome.splits)

lemma stage_outcome:
  "snd (execute_processing_stage isinstance sanitize_error_message t document_id
          stage_name next_stage progress f) = stage_result isinstance f"
  by (auto simp: execute_processing_stage_def stage_result_def Let_def split: outcome.splits)

lemmas run_simps =
  process_document_background_def best_effort_failure_def Let_def case_prod_beta
  stage_outcome stage_writes outer_handler_def best_effort_failed_def succeeded_def

text \<open>What a stage ends with, for a processor that decides at once or fails every time.\<close>

lemma stage_result_decisive:
  assumes "\<not> retryable_failure isinstance (RetryConfig_init 3 1 30 2 None) (f 0)"
  shows "stage_result isinstance f = outcome_of (f 0)"
proof -
  define c where "c = RetryConfig_init 3 1 30 2 None"
  have m: "max_retries c = 3" by (simp add: c_def RetryConfig_init_def)
  have "retry_loop isinstance f c [int 0..max_retries c] (initial_delay c) None =
          (outcome_of (f (0 + 0)), backoff_events c (initial_delay c) 0)"
    by (rule retry_loop_decisive) (use assms m in \<open>simp_all add: c_def\<close>)
  then show ?thesis
    by (simp add: stage_result_def retry_with_backoff_def c_def[symmetric])
qed

lemma stage_result_exhausted:
  assumes "\<forall>j \<le> 3. retryable_failure isinstance (RetryConfig_init 3 1 30 2 None) (f j)"
  shows "stage_result isinstance f = outcome_of (f 3)"
proof -
  define c where "c = RetryConfig_init 3 1 30 2 None"
  have m: "max_retries c = int 0 + int 3" by (simp add: c_def RetryConfig_init_def)
  have "retry_loop isinstance f c [int 0..max_retries c] (initial_delay c) None =
          (outcome_of (f (0 + 3)), backoff_events c (initial_delay c) 3)"
    by (rule retry_loop_exhausted) (use assms m in \<open>simp_all add: c_def\<close>)
  then show ?thesis
    by (simp add: stage_result_def retry_with_backoff_def c_def[symmetric])
qed

lemma stage_result_returns [simp]: "stage_result isinstance (\<lambda>k. Inr r) = Returned r"
  by (simp add: stage_result_decisive retryable_failure_def outcome_of_def)

lemma stage_result_times_out [simp]: "stage_result (=) (\<lambda>k. Inl TimeoutError) = Raised TimeoutError"
  by (simp add: stage_result_exhausted retryable_failure_def outcome_of_def is_retryable_def
        RetryConfig_init_def default_retryable_exceptions_def)

lemma stage_result_value_error [simp]:
  "stage_result (=) (\<lambda>k. Inl (OtherExceptionType n)) = Raised (OtherExceptionType n)"
  by (simp add: stage_result_decisive retryable_failure_def outcome_of_def is_retryable_def
        RetryConfig_init_def default_retryable_exceptions_def)

subsection \<open>A best-effort failure marks the document failed\<close>

text \<open>
  \<^bold>\<open>Claim C1\<close> (\<^verbatim>\<open>failed\<close> is absorbing: once a run has set the document's status to
  \<^verbatim>\<open>failed\<close>, no later status write of that run changes it; in particular a run in which
  a best-effort stage's failure handler has marked the document \<^verbatim>\<open>failed\<close> never afterwards
  marks it \<^verbatim>\<open>COMPLETED\<close>) does not hold of the code. Validation and routing are meant to be
  optional (``if it fails, continue with default values'', ``mark validation stage as failed
  in database''), but they run through \<^verbatim>\<open>_execute_processing_stage\<close>, whose
  \<^verbatim>\<open>except\<close> branch calls \<^verbatim>\<open>_handle_stage_error\<close> for every stage and so marks the
  \<^emph>\<open>document\<close> \<^verbatim>\<open>failed\<close>. In the run of the specification's end-to-end scenario, where
  validation times out on all four attempts: the handler writes \<^verbatim>\<open>failed\<close> (the document's
  row reads \<^verbatim>\<open>failed\<close> after the fifteenth call), the run goes on with the default
  validation result, the completion of routing writes \<^verbatim>\<open>routing\<close>, the storing of the
  results writes \<^verbatim>\<open>completed\<close>, and the document's row ends \<^verbatim>\<open>completed\<close>.
\<close>

theorem best_effort_failure_marks_failed_then_completed:
  "(let calls = process_document_background (=) sanitized example_tools example_document_id
                  validation_times_out
    in status_writes calls =
         [''preprocessing'', ''preprocessing'', ''ocr_extraction'', ''llm_processing'',
          ''failed'', ''routing'', ''completed'']
     \<and> \<not> failed_absorbing (status_writes calls)
     \<and> map_option (\<lambda>db. map doc_status (documents db))
          (db_service (run_calls example_document_id 0 example_tools (take 15 calls)))
         = Some [''failed'']
     \<and> map_option (\<lambda>db. map doc_status (documents db))
          (db_service (run_calls example_document_id 0 example_tools calls)) = Some [''completed''])"
proof -
  note run_eval =
    process_document_background_def execute_processing_stage_def Let_def
    stage_result_def[symmetric] update_stage_completion_def handle_stage_error_def
    outer_handler_def best_effort_failed_def validation_times_out_def example_tools_def
    database_active_def example_database_def empty_database_def
    tools_update_document_status_def tools_store_processing_results_def
    with_db_def with_mem_def update_document_status_def update_processing_stage_def
    execute_command_def execute_def db_raises_def json_dumps.simps or_empty_dict_def sanitized_def
  have w: "status_writes (process_document_background (=) sanitized example_tools
                            example_document_id validation_times_out) =
         [''preprocessing'', ''preprocessing'', ''ocr_extraction'', ''llm_processing'',
          ''failed'', ''routing'', ''completed'']"
    by (simp add: run_simps validation_times_out_def example_tools_def database_active_def)
  have f: "map_option (\<lambda>db. map doc_status (documents db))
          (db_service (run_calls example_document_id 0 example_tools
             (take 15 (process_document_background (=) sanitized example_tools
                         example_document_id validation_times_out))))
          = Some [''failed'']"
    by (simp add: run_eval)
  have r: "map_option (\<lambda>db. map doc_status (documents db))
          (db_service (run_calls example_document_id 0 example_tools
             (process_document_background (=) sanitized example_tools
                example_document_id validation_times_out)))
          = Some [''completed'']"
    by (simp add: run_eval)
  show ?thesis
    unfolding Let_def by (simp add: w f r)
qed

text \<open>
  The extent of the departure. In every run in which no best-effort stage fails the code
  keeps the contract: after a status write of \<^verbatim>\<open>failed\<close> every later status write of the
  run is \<^verbatim>\<open>failed\<close>. Every run in which validation or routing fails (the file exists, the
  three critical stages return, the storing of the results does not raise) breaks it as the
  example does: \<^verbatim>\<open>failed\<close> is written and the last status written is \<^verbatim>\<open>completed\<close>.
\<close>

lemma departure_only_at_best_effort_failure:
  "(\<not> best_effort_failure isinstance p \<longrightarrow>
      failed_absorbing (status_writes
        (process_document_background isinstance sanitize_error_message t document_id p)))
   \<and> (best_effort_failure isinstance p \<and> store_raises p = None \<longrightarrow>
        \<not> failed_absorbing (status_writes
            (process_document_background isinstance sanitize_error_message t document_id p))
        \<and> last (status_writes
            (process_document_background isinstance sanitize_error_message t document_id p))
            = ''completed'')"
proof (cases "file_exists p")
  case False
  then show ?thesis by (simp add: run_simps)
next
  case fe: True
  show ?thesis
  proof (cases "stage_result isinstance (preprocess p)")
    case pre: (Returned pre)
    show ?thesis
    proof (cases "stage_result isinstance (extract_text p pre)")
      case ocr: (Returned ocr)
      show ?thesis
      proof (cases "stage_result isinstance (llm_process p pre ocr)")
        case llm: (Returned llm)
        show ?thesis
        proof (cases "stage_result isinstance (evaluate_document p llm)")
          case val: (Returned v)
          show ?thesis
            using fe pre ocr llm val
            by (cases "stage_result isinstance (route_document p llm v)")
               (auto simp: run_simps split: option.splits)
        next
          case val: (Raised e)
          show ?thesis
            using fe pre ocr llm val
            by (cases "stage_result isinstance (route_document p llm (default_validation p))")
               (auto simp: run_simps split: option.splits)
        next
          case val: RaisedTypeError
          show ?thesis
            using fe pre ocr llm val
            by (cases "stage_result isinstance (route_document p llm (default_validation p))")
               (auto simp: run_simps split: option.splits)
        qed
      qed (use fe pre ocr in \<open>auto simp: run_simps\<close>)
    qed (use fe pre in \<open>auto simp: run_simps\<close>)
  qed (use fe in \<open>auto simp: run_simps\<close>)
qed

lemma departure_only_at_best_effort_failure_examples:
  "\<not> best_effort_failure (=) ocr_fails
   \<and> status_writes (process_document_background (=) sanitized example_tools example_document_id ocr_fails)
       = [''preprocessing'', ''preprocessing'', ''failed'', ''failed'']
   \<and> failed_absorbing
       (status_writes (process_document_background (=) sanitized example_tools example_document_id ocr_fails))
   \<and> best_effort_failure (=) validation_times_out \<and> store_raises validation_times_out = None
   \<and> \<not> failed_absorbing
       (status_writes (process_document_background (=) sanitized example_tools example_document_id validation_times_out))
   \<and> last (status_writes
        (process_document_background (=) sanitized example_tools example_document_id validation_times_out))
       = ''completed''"
proof -
  have a: "\<not> best_effort_failure (=) ocr_fails"
    by (simp add: best_effort_failure_def ocr_fails_def validation_times_out_def)
  have b: "best_effort_failure (=) validation_times_out \<and> store_raises validation_times_out = None"
    by (simp add: best_effort_failure_def validation_times_out_def)
  have w: "status_writes (process_document_background (=) sanitized example_tools example_document_id ocr_fails)
       = [''preprocessing'', ''preprocessing'', ''failed'', ''failed'']"
    by (simp add: run_simps ocr_fails_def validation_times_out_def example_tools_def database_active_def)
  note t1 = departure_only_at_best_effort_failure
              [of "(=)" ocr_fails sanitized example_tools example_document_id]
  note t2 = departure_only_at_best_effort_failure
              [of "(=)" validation_times_out sanitized example_tools example_document_id]
  note c1 = mp [OF conjunct1 [OF t1] a]
  note c2 = mp [OF conjunct2 [OF t2] b]
  show ?thesis
    using a b w c1 c2 by (intro conjI) simp_all
qed

subsection \<open>Progress through a run\<close>

lemma stage_rows_of_map:
  assumes "\<And>r. ps_document_id (g r) = ps_document_id r"
  shows "stage_rows_of document_id (db\<lparr>processing_stages := map g (processing_stages db)\<rparr>) =
           map g (stage_rows_of document_id db)"
  by (simp add: stage_rows_of_def filter_map comp_def assms)

lemma completed_count_map:
  "(\<And>r. r \<in> set rows \<Longrightarrow> ps_status r = ''completed'' \<Longrightarrow> ps_status (g r) = ''completed'') \<Longrightarrow>
   length (filter (\<lambda>s. ps_status s = ''completed'') rows)
     \<le> length (filter (\<lambda>s. ps_status s = ''completed'') (map g rows))"
  by (induction rows) auto

lemma stage_progress_mono:
  assumes "length rows' = length rows"
    and "length (filter (\<lambda>s. ps_status s = ''completed'') rows)
           \<le> length (filter (\<lambda>s. ps_status s = ''completed'') rows')"
  shows "stage_progress rows \<le> stage_progress rows'"
  using assms by (simp add: stage_progress_def Let_def zdiv_mono1)

text \<open>
  What \<^verbatim>\<open>update_processing_stage\<close> does to the document's stage records: nothing (the
  statement raised), or the records of the stage named get the status.
\<close>

lemma update_processing_stage_rows:
  "stage_rows_of document_id
      (snd (update_processing_stage document_id stage_name status error_message None None db))
     = stage_rows_of document_id db
   \<or> (\<exists>g. stage_rows_of document_id
            (snd (update_processing_stage document_id stage_name status error_message None None db))
           = map (\<lambda>r. if ps_stage_name r = stage_name then g r else r) (stage_rows_of document_id db)
         \<and> (\<forall>r. ps_status (g r) = status \<and> ps_stage_name (g r) = ps_stage_name r))"
proof (cases "db_raises db")
  case True
  then show ?thesis
    by (simp add: update_processing_stage_def execute_command_def execute_def Let_def or_empty_dict_def)
next
  case False
  let ?db0 = "db\<lparr>db_faults := tl (db_faults db)\<rparr>"
  let ?g = "\<lambda>r::stage_row.
              r\<lparr>ps_status := status,
                ps_completed_at := (if status = ''completed'' then Some (db_clock ?db0)
                                    else ps_completed_at r),
                ps_error_message := error_message,
                ps_processing_time_ms := None,
                ps_metadata := PyDict []\<rparr>"
  let ?h = "\<lambda>r. if ps_document_id r = document_id \<and> ps_stage_name r = stage_name then ?g r else r"
  have "stage_rows_of document_id
          (snd (update_processing_stage document_id stage_name status error_message None None db))
        = stage_rows_of document_id (?db0\<lparr>processing_stages := map ?h (processing_stages ?db0)\<rparr>)"
    using False
    by (simp add: update_processing_stage_def execute_command_def execute_def Let_def
          or_empty_dict_def)
  also have "\<dots> = map ?h (stage_rows_of document_id ?db0)"
    by (rule stage_rows_of_map) simp
  also have "\<dots> = map (\<lambda>r. if ps_stage_name r = stage_name then ?g r else r) (stage_rows_of document_id db)"
    by (auto simp: stage_rows_of_def)
  finally have e: "stage_rows_of document_id
            (snd (update_processing_stage document_id stage_name status error_message None None db))
           = map (\<lambda>r. if ps_stage_name r = stage_name then ?g r else r) (stage_rows_of document_id db)" .
  have q: "\<forall>r. ps_status (?g r) = status \<and> ps_stage_name (?g r) = ps_stage_name r"
    by simp
  show ?thesis
    by (rule disjI2, rule exI[of _ ?g], rule conjI[OF e q])
qed

lemma update_document_status_rows:
  "stage_rows_of d (snd (update_document_status document_id status processing_stage db))
     = stage_rows_of d db"
  by (simp add: update_document_status_def execute_command_def execute_def Let_def)

lemma progress_of_with_mem [simp]: "progress_of d (with_mem document_id f t) = progress_of d t"
  by (simp add: progress_of_def with_mem_def split: option.splits)

lemma completed_within_with_mem [simp]:
  "completed_within finished d (with_mem document_id f t) = completed_within finished d t"
  by (simp add: completed_within_def with_mem_def split: option.splits)

lemma with_db_same_rows:
  assumes "\<And>db. stage_rows_of d (snd (f db)) = stage_rows_of d db"
  shows "progress_of d (with_db f t) = progress_of d t"
    and "completed_within finished d (with_db f t) = completed_within finished d t"
  by (simp_all add: progress_of_def completed_within_def with_db_def assms split: option.splits)

lemma exec_update_stage:
  assumes "completed_within finished document_id t"
    and "status = ''completed'' \<or> stage_name \<notin> set finished"
  shows "progress_of document_id t
           \<le> progress_of document_id
                (exec_call document_id now (DB_update_processing_stage stage_name status e) t)"
    and "completed_within (if status = ''completed'' then stage_name # finished else finished)
           document_id (exec_call document_id now (DB_update_processing_stage stage_name status e) t)"
proof -
  let ?t' = "exec_call document_id now (DB_update_processing_stage stage_name status e) t"
  have "progress_of document_id t \<le> progress_of document_id ?t'
        \<and> completed_within (if status = ''completed'' then stage_name # finished else finished)
            document_id ?t'"
  proof (cases "db_service t")
    case None
    then show ?thesis by (simp add: with_db_def progress_of_def completed_within_def)
  next
    case (Some db)
    show ?thesis
    proof (cases "use_database t")
      case False
      with Some assms(1) show ?thesis
        by (auto simp: with_db_def progress_of_def completed_within_def list_all_iff)
    next
      case True
      let ?db' = "snd (update_processing_stage document_id stage_name status e None None db)"
      let ?rows = "stage_rows_of document_id db"
      have t': "db_service ?t' = Some ?db'"
        using Some True by (simp add: with_db_def)
      have inv: "list_all (\<lambda>r. ps_status r = ''completed'' \<longrightarrow> ps_stage_name r \<in> set finished) ?rows"
        using assms(1) Some by (simp add: completed_within_def)
      consider (same) "stage_rows_of document_id ?db' = ?rows"
        | (mapped) g where "stage_rows_of document_id ?db' =
                              map (\<lambda>r. if ps_stage_name r = stage_name then g r else r) ?rows"
            "\<forall>r. ps_status (g r) = status \<and> ps_stage_name (g r) = ps_stage_name r"
        using update_processing_stage_rows[of document_id stage_name status e db] by blast
      then show ?thesis
      proof cases
        case same
        with Some t' inv show ?thesis
          by (auto simp: progress_of_def completed_within_def list_all_iff)
      next
        case mapped
        let ?h = "\<lambda>r. if ps_stage_name r = stage_name then g r else r"
        have keep: "\<And>r. r \<in> set ?rows \<Longrightarrow> ps_status r = ''completed'' \<Longrightarrow> ps_status (?h r) = ''completed''"
          using inv assms(2) mapped(2) by (auto simp: list_all_iff)
        have "stage_progress ?rows \<le> stage_progress (map ?h ?rows)"
          by (rule stage_progress_mono) (simp, rule completed_count_map, rule keep)
        moreover have "list_all (\<lambda>r. ps_status r = ''completed'' \<longrightarrow>
                           ps_stage_name r \<in> set (if status = ''completed'' then stage_name # finished else finished))
                         (map ?h ?rows)"
          using inv mapped(2) by (auto simp: list_all_iff)
        ultimately show ?thesis
          using Some t' mapped(1) by (simp add: progress_of_def completed_within_def)
      qed
    qed
  qed
  then show "progress_of document_id t \<le> progress_of document_id ?t'"
    and "completed_within (if status = ''completed'' then stage_name # finished else finished)
           document_id ?t'"
    by simp_all
qed

lemma exec_other:
  assumes "\<And>stage_name status e. c \<noteq> DB_update_processing_stage stage_name status e"
    and "\<And>stage_name status. c \<noteq> DB_create_processing_stage stage_name status"
  shows "progress_of document_id (exec_call document_id now c t) = progress_of document_id t"
    and "completed_within finished document_id (exec_call document_id now c t)
           = completed_within finished document_id t"
  using assms
  by (cases c; simp add: with_db_same_rows update_document_status_rows
        tools_update_document_status_def tools_store_processing_results_def)+

lemma sorted_progress_trace_Cons:
  "sorted (x # progress_trace document_id now t calls)
     = (x \<le> progress_of document_id t \<and> sorted (progress_trace document_id now t calls))"
  by (cases calls) auto

lemma sorted_progress_trace_other:
  assumes other: "\<And>stage_name status e. c \<noteq> DB_update_processing_stage stage_name status e"
      "\<And>stage_name status. c \<noteq> DB_create_processing_stage stage_name status"
    and cw: "completed_within finished document_id t"
    and ih: "\<And>t'. completed_within finished document_id t' \<Longrightarrow>
                 sorted (progress_trace document_id (Suc now) t' calls)"
  shows "sorted (progress_trace document_id now t (c # calls))"
proof -
  have p: "progress_of document_id (exec_call document_id now c t) = progress_of document_id t"
    by (rule exec_other(1)) (rule other)+
  have "completed_within finished document_id (exec_call document_id now c t)"
    by (simp add: exec_other(2) other cw del: exec_call.simps)
  then have "sorted (progress_trace document_id (Suc now) (exec_call document_id now c t) calls)"
    by (rule ih)
  with p show ?thesis
    unfolding progress_trace.simps sorted_progress_trace_Cons by simp
qed

lemma sorted_progress_trace:
  "updates_in_place finished calls \<Longrightarrow> completed_within finished document_id t \<Longrightarrow>
   sorted (progress_trace document_id now t calls)"
proof (induction calls arbitrary: finished t now)
  case Nil
  then show ?case by simp
next
  case (Cons c calls)
  consider (create) stage_name status where "c = DB_create_processing_stage stage_name status"
    | (update) stage_name status error_message
        where "c = DB_update_processing_stage stage_name status error_message"
    | (other) "\<And>stage_name status e. c \<noteq> DB_update_processing_stage stage_name status e"
        "\<And>stage_name status. c \<noteq> DB_create_processing_stage stage_name status"
    by (cases c) auto
  then show ?case
  proof cases
    case create
    with Cons.prems(1) show ?thesis by simp
  next
    case update
    let ?t' = "exec_call document_id now (DB_update_processing_stage stage_name status error_message) t"
    have ok: "status = ''completed'' \<or> stage_name \<notin> set finished"
      using Cons.prems(1) update by (auto split: if_splits)
    note step = exec_update_stage[OF Cons.prems(2) ok, of now error_message]
    have "sorted (progress_trace document_id (Suc now) ?t' calls)"
    proof (cases "status = ''completed''")
      case True
      with step(2) have "completed_within (stage_name # finished) document_id ?t'" by simp
      moreover have "updates_in_place (stage_name # finished) calls"
        using Cons.prems(1) update True by simp
      ultimately show ?thesis by (rule Cons.IH[rotated])
    next
      case False
      with step(2) have "completed_within finished document_id ?t'" by simp
      moreover have "updates_in_place finished calls"
        using Cons.prems(1) update False by simp
      ultimately show ?thesis by (rule Cons.IH[rotated])
    qed
    with step(1) show ?thesis
      unfolding update progress_trace.simps sorted_progress_trace_Cons by blast
  next
    case other
    have u: "updates_in_place finished calls"
      using other Cons.prems(1) by (cases c) auto
    show ?thesis
      by (rule sorted_progress_trace_other[OF other Cons.prems(2)]) (rule Cons.IH[OF u])
  qed
qed

lemma updates_in_place_append:
  "updates_in_place finished (xs @ ys) =
     (updates_in_place finished xs \<and> updates_in_place (finished_after finished xs) ys)"
  by (induction finished xs rule: updates_in_place.induct) auto

lemma finished_after_append:
  "finished_after finished (xs @ ys) = finished_after (finished_after finished xs) ys"
  by (induction finished xs rule: finished_after.induct) auto

lemma stage_calls:
  "updates_in_place finished
     (fst (execute_processing_stage isinstance sanitize_error_message t document_id
             stage_name next_stage progress f))
     = (database_active t \<longrightarrow> stage_name \<notin> set finished)"
  "finished_after finished
     (fst (execute_processing_stage isinstance sanitize_error_message t document_id
             stage_name next_stage progress f))
     = (if database_active t \<and> succeeded (stage_result isinstance f)
        then stage_name # finished else finished)"
  by (auto simp: execute_processing_stage_def stage_result_def succeeded_def Let_def
        update_stage_completion_def handle_stage_error_def split: outcome.splits)

lemmas place_simps =
  process_document_background_def Let_def case_prod_beta stage_outcome stage_calls
  updates_in_place_append finished_after_append outer_handler_def best_effort_failed_def
  succeeded_def

lemma run_updates_in_place:
  "updates_in_place []
     (process_document_background isinstance sanitize_error_message t document_id p)"
proof (cases "file_exists p")
  case False
  then show ?thesis by (simp add: place_simps)
next
  case fe: True
  show ?thesis
  proof (cases "stage_result isinstance (preprocess p)")
    case pre: (Returned pre)
    show ?thesis
    proof (cases "stage_result isinstance (extract_text p pre)")
      case ocr: (Returned ocr)
      show ?thesis
      proof (cases "stage_result isinstance (llm_process p pre ocr)")
        case llm: (Returned llm)
        show ?thesis
        proof (cases "stage_result isinstance (evaluate_document p llm)")
          case val: (Returned v)
          show ?thesis
            using fe pre ocr llm val
            by (cases "stage_result isinstance (route_document p llm v)")
               (auto simp: place_simps split: option.splits)
        next
          case val: (Raised e)
          show ?thesis
            using fe pre ocr llm val
            by (cases "stage_result isinstance (route_document p llm (default_validation p))")
               (auto simp: place_simps split: option.splits)
        next
          case val: RaisedTypeError
          show ?thesis
            using fe pre ocr llm val
            by (cases "stage_result isinstance (route_document p llm (default_validation p))")
               (auto simp: place_simps split: option.splits)
        qed
      qed (use fe pre ocr in \<open>auto simp: place_simps\<close>)
    qed (use fe pre in \<open>auto simp: place_simps\<close>)
  qed (use fe in \<open>auto simp: place_simps\<close>)
qed

lemma get_document_status_progress:
  assumes "list_ex (\<lambda>r. doc_id r = document_id) (documents db)" and "healthy 2 db"
  shows "map_option st_progress (fst (get_document_status document_id db))
           = Some (stage_progress (stage_rows_of document_id db))"
proof -
  obtain doc rest where d: "filter (\<lambda>r. doc_id r = document_id) (documents db) = doc # rest"
    using assms(1) by (cases "filter (\<lambda>r. doc_id r = document_id) (documents db)")
                      (auto simp: list_ex_iff filter_empty_conv)
  have h2: "healthy (Suc (Suc 0)) db" using assms(2) by (simp add: numeral_2_eq_2)
  have h1: "healthy (Suc 0) (db\<lparr>db_faults := tl (db_faults db), db_clock := Suc (db_clock db)\<rparr>)"
    using h2 by (rule healthy_tl)
  show ?thesis
    by (simp add: get_document_status_def execute_query_healthy[OF h2] execute_query_healthy[OF h1] d)
qed

lemmas store_call_eval =
  lazy_stage_writes_def unstarted_tools_def example_tools_def example_database_def
  empty_database_def with_db_def with_mem_def create_processing_stage_def
  update_processing_stage_def update_document_status_def execute_command_def execute_query_def
  execute_def db_raises_def or_empty_dict_def progress_of_def stage_progress_def stage_rows_of_def
  get_document_status_def tools_update_document_status_def tools_store_processing_results_def
  Let_def

text \<open>
  Claim C2, as written: with stage records created lazily, one per stage when the stage
  begins, the progress \<^verbatim>\<open>completed_stages / total_stages\<close> of \<^verbatim>\<open>get_document_status\<close>
  never decreases from one query to the next. It does: the quotient is taken over the records
  that exist. When preprocessing has been created and completed the progress is
  \<open>1 / 1\<close>, 100; when the record of OCR extraction is then created it is \<open>1 / 2\<close>, 50.
\<close>

theorem lazy_creation_counterexample:
  "(let calls = lazy_stage_writes [(''preprocessing'', True), (''ocr_extraction'', True)];
        after2 = run_calls example_document_id 0 unstarted_tools (take 2 calls);
        after3 = run_calls example_document_id 0 unstarted_tools (take 3 calls)
    in progress_trace example_document_id 0 unstarted_tools calls = [0, 0, 100, 50, 100]
     \<and> \<not> sorted (progress_trace example_document_id 0 unstarted_tools calls)
     \<and> map_option (\<lambda>db. map_option st_progress (fst (get_document_status example_document_id db)))
          (db_service after2) = Some (Some 100)
     \<and> map_option (\<lambda>db. map_option st_progress (fst (get_document_status example_document_id db)))
          (db_service after3) = Some (Some 50))"
proof -
  have t: "progress_trace example_document_id 0 unstarted_tools
             (lazy_stage_writes [(''preprocessing'', True), (''ocr_extraction'', True)])
           = [0, 0, 100, 50, 100]"
    by (simp add: store_call_eval)
  have a2: "map_option (\<lambda>db. map_option st_progress (fst (get_document_status example_document_id db)))
          (db_service (run_calls example_document_id 0 unstarted_tools
             (take 2 (lazy_stage_writes [(''preprocessing'', True), (''ocr_extraction'', True)]))))
          = Some (Some 100)"
    by (simp add: store_call_eval)
  have a3: "map_option (\<lambda>db. map_option st_progress (fst (get_document_status example_document_id db)))
          (db_service (run_calls example_document_id 0 unstarted_tools
             (take 3 (lazy_stage_writes [(''preprocessing'', True), (''ocr_extraction'', True)]))))
          = Some (Some 50)"
    by (simp add: store_call_eval)
  show ?thesis
    unfolding Let_def by (simp add: t a2 a3)
qed

text \<open>
  Claim C2, amended: for a document none of whose stage records is completed when the run
  begins, the progress computed from the stage records never decreases through the calls of
  a run of \<^verbatim>\<open>process_document_background\<close>, whatever the stages' outcomes and whichever
  statements of the database raise. The run creates no stage record: it updates the records
  that exist, each stage to \<^verbatim>\<open>processing\<close> and then to \<^verbatim>\<open>completed\<close> or \<^verbatim>\<open>failed\<close>, so the
  number of records stays and the number of completed ones does not fall.
\<close>

theorem progress_monotone_when_updated_in_place:
  "completed_within [] document_id t \<longrightarrow>
     sorted (progress_trace document_id now t
               (process_document_background isinstance sanitize_error_message t document_id p))"
  using sorted_progress_trace[OF run_updates_in_place] by blast

theorem progress_monotone_when_updated_in_place_witness:
  "completed_within [] example_document_id example_tools
   \<and> sorted (progress_trace example_document_id 0 example_tools
               (process_document_background (=) sanitized example_tools example_document_id validation_times_out))
   \<and> progress_trace example_document_id 0 example_tools
        (process_document_background (=) sanitized example_tools example_document_id validation_times_out)
       = [0, 0, 0, 20, 20, 20, 20, 40, 40, 40, 40, 60, 60, 60, 60, 60, 60, 60, 80, 80, 80, 80]"
proof -
  have a: "completed_within [] example_document_id example_tools"
    by (simp add: completed_within_def example_tools_def example_database_def empty_database_def
          stage_rows_of_def)
  note c = mp [OF progress_monotone_when_updated_in_place
                    [of example_document_id example_tools 0 "(=)" sanitized validation_times_out] a]
  have e: "progress_trace example_document_id 0 example_tools
        (process_document_background (=) sanitized example_tools example_document_id validation_times_out)
       = [0, 0, 0, 20, 20, 20, 20, 40, 40, 40, 40, 60, 60, 60, 60, 60, 60, 60, 80, 80, 80, 80]"
    by (simp add: process_document_background_def execute_processing_stage_def
          stage_result_def[symmetric] update_stage_completion_def handle_stage_error_def
          outer_handler_def best_effort_failed_def validation_times_out_def database_active_def
          sanitized_def store_call_eval)
  show ?thesis
    using a c e by (intro conjI)
qed

end
